theory Spec2Isabelle
  imports
    Complex_Main
    "HOL-Library.Multiset"
    "HOL-Library.List_Lexorder"
    "HOL-Library.Char_ord"
    "HOL-Library.Product_Lexorder"
begin

section \<open>Weather analysis: seasonal statistics, anomalies and normality\<close>

text \<open>
  A shallow embedding of \<^verbatim>\<open>utils/data_processing.py\<close>: the loader
  \<^verbatim>\<open>load_and_validate_data\<close>, the analyzer \<^verbatim>\<open>analyze_city_data\<close> and the
  classifier \<^verbatim>\<open>check_temperature_normality\<close>.

  The module imports three constants from \<^verbatim>\<open>config.settings\<close>, which is not part of the
  sources at hand; they are the fields of the record \<open>config\<close> and every function that
  reads one of them takes the record as its first argument.
\<close>

subsection \<open>Floating-point values\<close>

text \<open>
  A pandas float is either a number or the missing value NaN. Numbers are exact reals
  here: rounding, overflow and the infinities of IEEE-754 are not modelled. Arithmetic
  with NaN gives NaN and every comparison with NaN is false, as in numpy.
\<close>

datatype pyfloat = Num real | NaN

fun fadd :: "pyfloat \<Rightarrow> pyfloat \<Rightarrow> pyfloat" where
  "fadd (Num a) (Num b) = Num (a + b)"
| "fadd _ _ = NaN"

fun fsub :: "pyfloat \<Rightarrow> pyfloat \<Rightarrow> pyfloat" where
  "fsub (Num a) (Num b) = Num (a - b)"
| "fsub _ _ = NaN"

fun fmul :: "pyfloat \<Rightarrow> pyfloat \<Rightarrow> pyfloat" where
  "fmul (Num a) (Num b) = Num (a * b)"
| "fmul _ _ = NaN"

text \<open>
  Division: the source divides only behind the guard \<^verbatim>\<open>std_temp > 0\<close>. A zero divisor
  (an infinity or NaN in numpy) is given as NaN, the model having no infinities.
\<close>

fun fdiv :: "pyfloat \<Rightarrow> pyfloat \<Rightarrow> pyfloat" where
  "fdiv (Num a) (Num b) = (if b = 0 then NaN else Num (a / b))"
| "fdiv _ _ = NaN"

fun flt :: "pyfloat \<Rightarrow> pyfloat \<Rightarrow> bool" where
  "flt (Num a) (Num b) = (a < b)"
| "flt _ _ = False"

fun fle :: "pyfloat \<Rightarrow> pyfloat \<Rightarrow> bool" where
  "fle (Num a) (Num b) = (a \<le> b)"
| "fle _ _ = False"

fun fgt :: "pyfloat \<Rightarrow> pyfloat \<Rightarrow> bool" where
  "fgt (Num a) (Num b) = (a > b)"
| "fgt _ _ = False"

subsection \<open>Series aggregates\<close>

text \<open>
  The pandas reductions \<^verbatim>\<open>mean\<close>, \<^verbatim>\<open>std\<close>, \<^verbatim>\<open>min\<close>, \<^verbatim>\<open>max\<close> and \<^verbatim>\<open>count\<close> skip
  missing values. \<^verbatim>\<open>std\<close> is the sample standard deviation (\<^verbatim>\<open>ddof=1\<close>): it is NaN
  unless at least two values are present.
\<close>

fun dropna :: "pyfloat list \<Rightarrow> real list" where
  "dropna [] = []"
| "dropna (Num x # xs) = x # dropna xs"
| "dropna (NaN # xs) = dropna xs"

definition series_mean :: "pyfloat list \<Rightarrow> pyfloat" where
  "series_mean xs =
     (let v = dropna xs in
      if v = [] then NaN else Num (sum_list v / real (length v)))"

definition series_std :: "pyfloat list \<Rightarrow> pyfloat" where
  "series_std xs =
     (let v = dropna xs; n = length v in
      if n \<le> 1 then NaN
      else let m = sum_list v / real n in
           Num (sqrt (sum_list (map (\<lambda>x. (x - m)\<^sup>2) v) / real (n - 1))))"

definition series_min :: "pyfloat list \<Rightarrow> pyfloat" where
  "series_min xs = (let v = dropna xs in if v = [] then NaN else Num (Min (set v)))"

definition series_max :: "pyfloat list \<Rightarrow> pyfloat" where
  "series_max xs = (let v = dropna xs in if v = [] then NaN else Num (Max (set v)))"

definition series_count :: "pyfloat list \<Rightarrow> nat" where
  "series_count xs = length (dropna xs)"

subsection \<open>Configuration\<close>

record config =
  SEASON_MAPPING :: "string \<rightharpoonup> string"
  ANOMALY_THRESHOLD :: real
  ROLLING_WINDOW :: int

subsection \<open>Season names\<close>

text \<open>
  \<^verbatim>\<open>str.lower\<close> and \<^verbatim>\<open>str.strip\<close> on the ASCII range (strings are byte lists here;
  letters and white space beyond ASCII are left as they are).
\<close>

definition lower_char :: "char \<Rightarrow> char" where
  "lower_char c =
     (case map_of (zip ''ABCDEFGHIJKLMNOPQRSTUVWXYZ'' ''abcdefghijklmnopqrstuvwxyz'') c of
        Some l \<Rightarrow> l | None \<Rightarrow> c)"

definition lower :: "string \<Rightarrow> string" where
  "lower s = map lower_char s"

definition is_space :: "char \<Rightarrow> bool" where
  "is_space c =
     (c \<in> set [CHR 0x09, CHR 0x0A, CHR 0x0B, CHR 0x0C, CHR 0x0D,
                CHR 0x1C, CHR 0x1D, CHR 0x1E, CHR 0x1F, CHR 0x20])"

definition strip :: "string \<Rightarrow> string" where
  "strip s = rev (dropWhile is_space (rev (dropWhile is_space s)))"

definition translate_season :: "config \<Rightarrow> string \<Rightarrow> string" where
  "translate_season cfg season =
     (case SEASON_MAPPING cfg (lower season) of Some v \<Rightarrow> v | None \<Rightarrow> season)"

text \<open>\<^verbatim>\<open>get_current_season\<close>, of the month that the clock gives.\<close>

definition get_current_season :: "nat \<Rightarrow> string" where
  "get_current_season month =
     (if month \<in> set [12, 1, 2] then ''winter''
      else if month \<in> set [3, 4, 5] then ''spring''
      else if month \<in> set [6, 7, 8] then ''summer''
      else ''autumn'')"

definition get_season_name_ru :: "config \<Rightarrow> string \<Rightarrow> string" where
  "get_season_name_ru cfg season_eng = translate_season cfg season_eng"

subsection \<open>Cells and season statistics\<close>

text \<open>
  A cell of a column that the functions only carry along holds a text or a float.
\<close>

datatype cell = Txt string | Val pyfloat

text \<open>
  A row of the \<^verbatim>\<open>season_stats\<close> frame: the columns \<^verbatim>\<open>season\<close>, \<^verbatim>\<open>mean\<close>, \<^verbatim>\<open>std\<close>,
  \<^verbatim>\<open>min\<close>, \<^verbatim>\<open>max\<close> and \<^verbatim>\<open>count\<close> that the aggregation creates, and any column
  assigned later (\<open>stat_extras\<close>, by name).
\<close>

record stats_row =
  stat_season :: string
  stat_mean :: pyfloat
  stat_std :: pyfloat
  stat_min :: pyfloat
  stat_max :: pyfloat
  stat_count :: nat
  stat_extras :: "(string \<times> cell) list"

subsection \<open>The classifier\<close>

text \<open>The dictionary that \<^verbatim>\<open>check_temperature_normality\<close> returns; \<open>None\<close> is Python's \<^verbatim>\<open>None\<close>.\<close>

record normality =
  is_normal :: "bool option"
  mean_temp :: "pyfloat option"
  std_temp :: "pyfloat option"
  lower_bound :: "pyfloat option"
  upper_bound :: "pyfloat option"
  deviation :: "pyfloat option"
  deviation_in_std :: "pyfloat option"
  no_data :: bool

definition check_temperature_normality ::
  "config \<Rightarrow> pyfloat \<Rightarrow> string \<Rightarrow> stats_row list \<Rightarrow> normality" where
  "check_temperature_normality cfg current_temp season season_stats =
     (case filter (\<lambda>r. stat_season r = season) season_stats of
        [] \<Rightarrow>
          \<lparr>is_normal = None, mean_temp = None, std_temp = None, lower_bound = None,
           upper_bound = None, deviation = None, deviation_in_std = None, no_data = True\<rparr>
      | r # _ \<Rightarrow>
          (let mean_t = stat_mean r;
               std_t = stat_std r;
               lower_b = fsub mean_t (fmul (Num (ANOMALY_THRESHOLD cfg)) std_t);
               upper_b = fadd mean_t (fmul (Num (ANOMALY_THRESHOLD cfg)) std_t);
               is_norm = (fle lower_b current_temp \<and> fle current_temp upper_b);
               dev = fsub current_temp mean_t;
               dev_in_std = (if fgt std_t (Num 0) then fdiv dev std_t else Num 0)
           in \<lparr>is_normal = Some is_norm, mean_temp = Some mean_t, std_temp = Some std_t,
               lower_bound = Some lower_b, upper_bound = Some upper_b,
               deviation = Some dev, deviation_in_std = Some dev_in_std, no_data = False\<rparr>))"

subsection \<open>Observations, frames and the store\<close>

text \<open>
  A row of a city's frame: the four columns of an observation, typed as the data model
  has them, and every other column by name (\<open>extras\<close>): \<^verbatim>\<open>season_ru\<close> from the loader,
  and the columns that the analyzer assigns. Timestamps are the values of a linear
  order \<open>'t\<close>. The index labels of a frame are not modelled; the analyzer never reads them.
\<close>

record 't observation =
  city :: string
  timestamp :: 't
  temperature :: pyfloat
  season :: string
  extras :: "(string \<times> cell) list"

fun update_col :: "string \<Rightarrow> cell \<Rightarrow> (string \<times> cell) list \<Rightarrow> (string \<times> cell) list" where
  "update_col c v [] = [(c, v)]"
| "update_col c v (p # ps) = (if fst p = c then (c, v) # ps else p # update_col c v ps)"

definition set_col :: "string \<Rightarrow> cell \<Rightarrow> 't observation \<Rightarrow> 't observation" where
  "set_col c v r = r\<lparr>extras := update_col c v (extras r)\<rparr>"

definition get_col :: "string \<Rightarrow> 't observation \<Rightarrow> cell option" where
  "get_col c r = map_of (extras r) c"

text \<open>
  A DataFrame object is a frame of observations, a frame of season statistics, or the
  frame without columns that \<^verbatim>\<open>pd.DataFrame()\<close> creates. The store holds the objects;
  an address is a position in it, and a new object takes the next free position. Every
  pandas call that returns a new object allocates; an assignment \<^verbatim>\<open>df[col] = ...\<close>
  changes the object in place.
\<close>

datatype 't frame = Obs "'t observation list" | Stats "stats_row list" | Empty

type_synonym addr = nat

type_synonym 't store = "'t frame list"

datatype error = ValueError

fun obs_rows :: "'t frame \<Rightarrow> 't observation list" where
  "obs_rows (Obs rs) = rs"
| "obs_rows _ = []"

fun stats_rows :: "'t frame \<Rightarrow> stats_row list" where
  "stats_rows (Stats rs) = rs"
| "stats_rows _ = []"

definition alloc :: "'t frame \<Rightarrow> 't store \<Rightarrow> addr \<times> 't store" where
  "alloc f st = (length st, st @ [f])"

text \<open>
  \<^verbatim>\<open>df.sort_values('timestamp')\<close>: a new frame, the rows in ascending order of
  timestamp. Rows with equal timestamps are in the order of the argument here; pandas
  leaves their order to the sorting algorithm, and the properties below are stated
  without it.
\<close>

definition sort_values_timestamp :: "addr \<Rightarrow> ('t::linorder) store \<Rightarrow> addr \<times> 't store" where
  "sort_values_timestamp df st = alloc (Obs (sort_key timestamp (obs_rows (st ! df)))) st"

text \<open>\<^verbatim>\<open>df.copy()\<close> and \<^verbatim>\<open>df.reset_index()\<close>: a new frame with the same rows.\<close>

definition copy :: "addr \<Rightarrow> 't store \<Rightarrow> addr \<times> 't store" where
  "copy df st = alloc (st ! df) st"

definition reset_index :: "addr \<Rightarrow> 't store \<Rightarrow> addr \<times> 't store" where
  "reset_index df st = alloc (st ! df) st"

text \<open>\<^verbatim>\<open>df[mask]\<close> with a boolean mask computed row by row: a new frame of the rows selected.\<close>

definition getitem_rows ::
  "addr \<Rightarrow> ('t observation \<Rightarrow> bool) \<Rightarrow> 't store \<Rightarrow> addr \<times> 't store" where
  "getitem_rows df sel st = alloc (Obs (filter sel (obs_rows (st ! df)))) st"

text \<open>\<^verbatim>\<open>df[col] = series\<close> and \<^verbatim>\<open>df[col] = scalar\<close>: the object at \<open>df\<close> changes in place.\<close>

definition setitem :: "addr \<Rightarrow> string \<Rightarrow> cell list \<Rightarrow> 't store \<Rightarrow> 't store" where
  "setitem df c vals st =
     st[df := Obs (map (\<lambda>(r, v). set_col c v r) (zip (obs_rows (st ! df)) vals))]"

definition setitem_scalar :: "addr \<Rightarrow> string \<Rightarrow> cell \<Rightarrow> 't store \<Rightarrow> 't store" where
  "setitem_scalar df c v st = st[df := Obs (map (set_col c v) (obs_rows (st ! df)))]"

definition setitem_stats :: "addr \<Rightarrow> string \<Rightarrow> cell list \<Rightarrow> 't store \<Rightarrow> 't store" where
  "setitem_stats df c vals st =
     st[df := Stats (map (\<lambda>(r, v). r\<lparr>stat_extras := update_col c v (stat_extras r)\<rparr>)
                        (zip (stats_rows (st ! df)) vals))]"

text \<open>\<^verbatim>\<open>pd.concat(frames, ignore_index=True)\<close> and \<^verbatim>\<open>pd.DataFrame()\<close>.\<close>

definition concat_frames :: "addr list \<Rightarrow> 't store \<Rightarrow> addr \<times> 't store" where
  "concat_frames dfs st = alloc (Obs (concat (map (\<lambda>a. obs_rows (st ! a)) dfs))) st"

definition new_frame :: "'t store \<Rightarrow> addr \<times> 't store" where
  "new_frame st = alloc Empty st"

subsection \<open>The analyzer\<close>

text \<open>
  \<^verbatim>\<open>series.rolling(window=w, min_periods=1).mean()\<close>: pandas raises a \<^verbatim>\<open>ValueError\<close>
  unless \<open>1 \<le> w\<close> (\<^verbatim>\<open>min_periods\<close> must not exceed the window). Entry \<open>i\<close> is the mean of
  the values present among the last \<open>w\<close> entries up to \<open>i\<close>, NaN when none is present.
\<close>

definition rolling_mean :: "int \<Rightarrow> pyfloat list \<Rightarrow> error + pyfloat list" where
  "rolling_mean window xs =
     (if window < 1 then Inl ValueError
      else Inr (map (\<lambda>i. series_mean (drop (Suc i - nat window) (take (Suc i) xs)))
                    [0..<length xs]))"

text \<open>\<^verbatim>\<open>series.unique()\<close>: the distinct values in the order of their first appearance.\<close>

definition unique :: "'a list \<Rightarrow> 'a list" where
  "unique xs = rev (remdups (rev xs))"

text \<open>
  \<^verbatim>\<open>df.groupby('season')['temperature'].agg([mean, std, min, max, count])\<close>: one row for
  each season of the frame, the seasons in ascending order.
\<close>

definition groupby_season_agg :: "addr \<Rightarrow> 't store \<Rightarrow> addr \<times> 't store" where
  "groupby_season_agg df st =
     (let rows = obs_rows (st ! df) in
      alloc (Stats (map (\<lambda>s. let temps = map temperature (filter (\<lambda>r. season r = s) rows) in
                              \<lparr>stat_season = s, stat_mean = series_mean temps,
                               stat_std = series_std temps, stat_min = series_min temps,
                               stat_max = series_max temps, stat_count = series_count temps,
                               stat_extras = []\<rparr>)
                        (sort (remdups (map season rows))))) st)"

text \<open>\<^verbatim>\<open>str(n)\<close> for an integer.\<close>

fun digits :: "nat \<Rightarrow> string" where
  "digits n =
     (if n < 10 then [''0123456789'' ! n]
      else digits (n div 10) @ [''0123456789'' ! (n mod 10)])"

definition str :: "int \<Rightarrow> string" where
  "str i = (if i < 0 then CHR ''-'' # digits (nat (- i)) else digits (nat i))"

text \<open>One pass of the loop over the seasons of \<^verbatim>\<open>analyze_city_data\<close>.\<close>

definition season_body ::
  "config \<Rightarrow> addr \<Rightarrow> string \<Rightarrow> addr list \<Rightarrow> 't store \<Rightarrow> addr list \<times> 't store" where
  "season_body cfg city_df s anomalies_list st =
     (let (season_data, st1) = getitem_rows city_df (\<lambda>r. season r = s) st;
          temps = map temperature (obs_rows (st1 ! season_data));
          mean_t = series_mean temps;
          std_t = series_std temps;
          lower_b = fsub mean_t (fmul (Num (ANOMALY_THRESHOLD cfg)) std_t);
          upper_b = fadd mean_t (fmul (Num (ANOMALY_THRESHOLD cfg)) std_t);
          (selected, st2) =
            getitem_rows season_data
              (\<lambda>r. flt (temperature r) lower_b \<or> fgt (temperature r) upper_b) st1;
          (anomalies, st3) = copy selected st2
      in if length (obs_rows (st3 ! anomalies)) > 0 then
           (let st4 = setitem_scalar anomalies ''lower_bound'' (Val lower_b) st3;
                st5 = setitem_scalar anomalies ''upper_bound'' (Val upper_b) st4;
                st6 = setitem anomalies ''deviation''
                        (map (\<lambda>r. Val (fsub (temperature r) mean_t)) (obs_rows (st5 ! anomalies)))
                        st5
            in (anomalies_list @ [anomalies], st6))
         else (anomalies_list, st3))"

fun season_loop ::
  "config \<Rightarrow> addr \<Rightarrow> string list \<Rightarrow> addr list \<Rightarrow> 't store \<Rightarrow> addr list \<times> 't store" where
  "season_loop cfg city_df [] anomalies_list st = (anomalies_list, st)"
| "season_loop cfg city_df (s # ss) anomalies_list st =
     (let (anomalies_list', st') = season_body cfg city_df s anomalies_list st
      in season_loop cfg city_df ss anomalies_list' st')"

text \<open>
  \<^verbatim>\<open>analyze_city_data(city_df)\<close>: the argument is the address of the caller's frame. The
  result is the error raised, or the addresses of the three frames returned, and the
  store after the call.
\<close>

definition analyze_city_data ::
  "config \<Rightarrow> addr \<Rightarrow> ('t::linorder) store \<Rightarrow> (error + addr \<times> addr \<times> addr) \<times> 't store" where
  "analyze_city_data cfg arg st =
     (let (sorted_df, st1) = sort_values_timestamp arg st;
          (city_df, st2) = copy sorted_df st1
      in case rolling_mean (ROLLING_WINDOW cfg) (map temperature (obs_rows (st2 ! city_df))) of
           Inl e \<Rightarrow> (Inl e, st2)
         | Inr rm \<Rightarrow>
            (let st3 = setitem city_df (''rolling_mean_'' @ str (ROLLING_WINDOW cfg))
                         (map Val rm) st2;
                 (grouped, st4) = groupby_season_agg city_df st3;
                 (season_stats, st5) = reset_index grouped st4;
                 st6 = setitem_stats season_stats ''season_ru''
                         (map (\<lambda>r. Txt (translate_season cfg (stat_season r)))
                              (stats_rows (st5 ! season_stats))) st5;
                 (anomalies_list, st7) =
                   season_loop cfg city_df (unique (map season (obs_rows (st6 ! city_df)))) [] st6;
                 (city_anomalies, st8) =
                   (if anomalies_list \<noteq> [] then concat_frames anomalies_list st7
                    else new_frame st7)
             in (Inr (city_df, season_stats, city_anomalies), st8)))"

subsection \<open>The contents of the frames that the analyzer returns\<close>

text \<open>
  The rows of the three frames, as functions of the rows of the argument; the lemmas
  below show that \<open>analyze_city_data\<close> leaves exactly these in the store.
\<close>

definition window_mean :: "nat \<Rightarrow> pyfloat list \<Rightarrow> nat \<Rightarrow> pyfloat" where
  "window_mean w xs i = series_mean (drop (Suc i - w) (take (Suc i) xs))"

definition rolling_col :: "config \<Rightarrow> string" where
  "rolling_col cfg = ''rolling_mean_'' @ str (ROLLING_WINDOW cfg)"

definition enriched_rows :: "config \<Rightarrow> ('t::linorder) observation list \<Rightarrow> 't observation list" where
  "enriched_rows cfg rows =
     (let srt = sort_key timestamp rows in
      map (\<lambda>i. set_col (rolling_col cfg)
                  (Val (window_mean (nat (ROLLING_WINDOW cfg)) (map temperature srt) i)) (srt ! i))
          [0..<length srt])"

definition season_temps :: "'t observation list \<Rightarrow> string \<Rightarrow> pyfloat list" where
  "season_temps rows s = map temperature (filter (\<lambda>r. season r = s) rows)"

definition season_lower :: "config \<Rightarrow> 't observation list \<Rightarrow> string \<Rightarrow> pyfloat" where
  "season_lower cfg rows s =
     fsub (series_mean (season_temps rows s))
          (fmul (Num (ANOMALY_THRESHOLD cfg)) (series_std (season_temps rows s)))"

definition season_upper :: "config \<Rightarrow> 't observation list \<Rightarrow> string \<Rightarrow> pyfloat" where
  "season_upper cfg rows s =
     fadd (series_mean (season_temps rows s))
          (fmul (Num (ANOMALY_THRESHOLD cfg)) (series_std (season_temps rows s)))"

definition is_anomalous :: "config \<Rightarrow> 't observation list \<Rightarrow> 't observation \<Rightarrow> bool" where
  "is_anomalous cfg rows r =
     (flt (temperature r) (season_lower cfg rows (season r))
      \<or> fgt (temperature r) (season_upper cfg rows (season r)))"

definition annotate :: "config \<Rightarrow> 't observation list \<Rightarrow> 't observation \<Rightarrow> 't observation" where
  "annotate cfg rows r =
     set_col ''deviation''
       (Val (fsub (temperature r) (series_mean (season_temps rows (season r)))))
       (set_col ''upper_bound'' (Val (season_upper cfg rows (season r)))
          (set_col ''lower_bound'' (Val (season_lower cfg rows (season r))) r))"

definition season_anomalies ::
  "config \<Rightarrow> 't observation list \<Rightarrow> string \<Rightarrow> 't observation list" where
  "season_anomalies cfg rows s =
     map (annotate cfg rows)
         (filter (is_anomalous cfg rows) (filter (\<lambda>r. season r = s) rows))"

definition anomaly_rows :: "config \<Rightarrow> 't observation list \<Rightarrow> 't observation list" where
  "anomaly_rows cfg rows =
     concat (map (season_anomalies cfg rows) (unique (map season rows)))"

definition grouped_rows :: "'t observation list \<Rightarrow> stats_row list" where
  "grouped_rows rows =
     map (\<lambda>s. \<lparr>stat_season = s, stat_mean = series_mean (season_temps rows s),
               stat_std = series_std (season_temps rows s),
               stat_min = series_min (season_temps rows s),
               stat_max = series_max (season_temps rows s),
               stat_count = series_count (season_temps rows s),
               stat_extras = []\<rparr>)
         (sort (remdups (map season rows)))"

definition season_stats_rows :: "config \<Rightarrow> 't observation list \<Rightarrow> stats_row list" where
  "season_stats_rows cfg rows =
     map (\<lambda>s. \<lparr>stat_season = s, stat_mean = series_mean (season_temps rows s),
               stat_std = series_std (season_temps rows s),
               stat_min = series_min (season_temps rows s),
               stat_max = series_max (season_temps rows s),
               stat_count = series_count (season_temps rows s),
               stat_extras = [(''season_ru'', Txt (translate_season cfg s))]\<rparr>)
         (sort (remdups (map season rows)))"

text \<open>The observation that a row of a city's frame holds, whatever its other columns.\<close>

definition observation_of :: "'t observation \<Rightarrow> string \<times> 't \<times> pyfloat \<times> string" where
  "observation_of r = (city r, timestamp r, temperature r, season r)"

text \<open>
  Two calls of the analyzer return the same: both raise the same error, or the three
  frames that one returns have the contents of the three that the other returns.
\<close>

definition same_results ::
  "(error + addr \<times> addr \<times> addr) \<times> 't store \<Rightarrow> (error + addr \<times> addr \<times> addr) \<times> 't store \<Rightarrow> bool"
  where
  "same_results x y =
     (case (x, y) of
        ((Inr (e1, s1, n1), st1), (Inr (e2, s2, n2), st2)) \<Rightarrow>
           st1 ! e1 = st2 ! e2 \<and> st1 ! s1 = st2 ! s2 \<and> st1 ! n1 = st2 ! n2
      | ((Inl a, st1), (Inl b, st2)) \<Rightarrow> a = b
      | _ \<Rightarrow> False)"

text \<open>
  The position at which a value first appears in a column (the length of the column, if
  it does not appear).
\<close>

definition first_index :: "'a list \<Rightarrow> 'a \<Rightarrow> nat" where
  "first_index xs x = length (takeWhile (\<lambda>y. y \<noteq> x) xs)"

text \<open>The anomaly rule, on the observation of a row.\<close>

definition anomalous_observation ::
  "config \<Rightarrow> 't observation list \<Rightarrow> string \<times> 't \<times> pyfloat \<times> string \<Rightarrow> bool" where
  "anomalous_observation cfg rows ob =
     (case ob of (c, t, x, s) \<Rightarrow> flt x (season_lower cfg rows s) \<or> fgt x (season_upper cfg rows s))"

subsection \<open>An example\<close>

text \<open>
  Four winter days with the temperatures 0, 0, 0 and 8 (mean 2, sample standard
  deviation 4) and one summer day, out of order; timestamps are day numbers. With the
  threshold 1 the winter bounds are -2 and 6.
\<close>

definition example_config :: config where
  "example_config =
     \<lparr>SEASON_MAPPING = [''winter'' \<mapsto> ''zima''], ANOMALY_THRESHOLD = 1, ROLLING_WINDOW = 2\<rparr>"

definition example_row :: "nat \<Rightarrow> real \<Rightarrow> string \<Rightarrow> nat observation" where
  "example_row t x s =
     \<lparr>city = ''Moscow'', timestamp = t, temperature = Num x, season = s, extras = []\<rparr>"

definition example_rows :: "nat observation list" where
  "example_rows =
     [example_row 2 0 ''winter'', example_row 1 0 ''winter'', example_row 3 0 ''winter'',
      example_row 4 8 ''winter'', example_row 5 20 ''summer'']"

text \<open>
  Two rows of season statistics with a degenerate std: a season with one observation
  (std NaN) and a season of equal temperatures (std 0).
\<close>

definition undefined_std_row :: stats_row where
  "undefined_std_row =
     \<lparr>stat_season = ''summer'', stat_mean = Num 20, stat_std = NaN, stat_min = Num 20,
      stat_max = Num 20, stat_count = 1, stat_extras = []\<rparr>"

definition zero_std_row :: stats_row where
  "zero_std_row =
     \<lparr>stat_season = ''winter'', stat_mean = Num 5, stat_std = Num 0, stat_min = Num 5,
      stat_max = Num 5, stat_count = 2, stat_extras = []\<rparr>"

subsection \<open>The loader\<close>

text \<open>
  An entry of the frame that \<^verbatim>\<open>pd.read_csv\<close> returns is a text or a number (NaN for
  an empty field); \<^verbatim>\<open>pd.to_datetime\<close> turns entries into timestamps. A frame has its
  column names, in order, and its rows; a row gives the entry of each column (what it
  gives for other names is never read).
\<close>

datatype 't entry = Text string | Number pyfloat | Time 't

record 't raw_frame =
  columns :: "string list"
  records :: "(string \<Rightarrow> 't entry) list"

text \<open>
  The exceptions that the body of the loader can raise, and the error message of the
  pair it returns: the message for missing columns with their names, or the message for
  a failed load with the text of the exception caught. (The two messages are Russian
  texts in the source; they differ in their fixed first part.)
\<close>

datatype exn =
    ReadError string
  | KeyError string
  | ParseError string
  | AttributeError
  | TypeError

datatype load_error = MissingColumns "string list" | LoadFailed exn

text \<open>
  What \<^verbatim>\<open>pd.read_csv(uploaded_file)\<close> does with the uploaded file: it raises, or it
  returns a frame.
\<close>

datatype 't uploaded_file = Unreadable string | Readable "'t raw_frame"

definition getitem :: "'t raw_frame \<Rightarrow> string \<Rightarrow> exn + 't entry list" where
  "getitem df c = (if c \<in> set (columns df) then Inr (map (\<lambda>r. r c) (records df)) else Inl (KeyError c))"

definition assign :: "string \<Rightarrow> 't entry list \<Rightarrow> 't raw_frame \<Rightarrow> 't raw_frame" where
  "assign c vals df =
     \<lparr>columns = (if c \<in> set (columns df) then columns df else columns df @ [c]),
      records = map (\<lambda>(r, v). r(c := v)) (zip (records df) vals)\<rparr>"

text \<open>
  \<^verbatim>\<open>pd.to_datetime(series)\<close>, by the function \<open>parse\<close> that parses one entry to a
  timestamp or fails with a message: the entries in order, the first failure raised.
\<close>

fun to_datetime :: "('t entry \<Rightarrow> string + 't) \<Rightarrow> 't entry list \<Rightarrow> exn + 't entry list" where
  "to_datetime parse [] = Inr []"
| "to_datetime parse (x # xs) =
     (case parse x of
        Inl msg \<Rightarrow> Inl (ParseError msg)
      | Inr t \<Rightarrow> (case to_datetime parse xs of Inl e \<Rightarrow> Inl e | Inr ts \<Rightarrow> Inr (Time t # ts)))"

fun is_text :: "'t entry \<Rightarrow> bool" where
  "is_text (Text s) = True"
| "is_text _ = False"

fun text_of :: "'t entry \<Rightarrow> string" where
  "text_of (Text s) = s"
| "text_of _ = []"

text \<open>
  \<^verbatim>\<open>series.str.lower().str.strip()\<close>: the accessor \<^verbatim>\<open>.str\<close> raises an
  \<^verbatim>\<open>AttributeError\<close> on a column that has rows and no text among them (a column of
  numbers); in a column with texts it gives NaN for an entry that is not a text.
  \<^verbatim>\<open>series.apply(translate_season)\<close> raises an \<^verbatim>\<open>AttributeError\<close> on an entry that
  is not a text (it has no method \<^verbatim>\<open>lower\<close>).
\<close>

definition str_lower_strip :: "'t entry list \<Rightarrow> exn + 't entry list" where
  "str_lower_strip col =
     (if col \<noteq> [] \<and> \<not> list_ex is_text col then Inl AttributeError
      else Inr (map (\<lambda>e. if is_text e then Text (strip (lower (text_of e))) else Number NaN) col))"

definition apply_translate_season :: "config \<Rightarrow> 't entry list \<Rightarrow> exn + 't entry list" where
  "apply_translate_season cfg col =
     (if list_all is_text col then Inr (map (\<lambda>e. Text (translate_season cfg (text_of e))) col)
      else Inl AttributeError)"

text \<open>
  \<^verbatim>\<open>df.sort_values(by)\<close> on several columns: a stable sort, lexicographic in the columns
  of \<open>by\<close>, missing values last. Entries of different kinds in one column cannot be
  compared (\<^verbatim>\<open>TypeError\<close>).
\<close>

fun kind :: "'t entry \<Rightarrow> nat" where
  "kind (Number NaN) = 0"
| "kind (Text s) = 1"
| "kind (Number (Num x)) = 2"
| "kind (Time t) = 3"

definition sortable :: "'t entry list \<Rightarrow> bool" where
  "sortable col =
     list_all (\<lambda>a. list_all (\<lambda>b. kind a = 0 \<or> kind b = 0 \<or> kind a = kind b) col) col"

fun entry_key :: "'t entry \<Rightarrow> bool \<times> string \<times> real \<times> 't list" where
  "entry_key (Number NaN) = (True, [], 0, [])"
| "entry_key (Text s) = (False, s, 0, [])"
| "entry_key (Number (Num x)) = (False, [], x, [])"
| "entry_key (Time t) = (False, [], 0, [t])"

definition row_key :: "string list \<Rightarrow> (string \<Rightarrow> 't entry) \<Rightarrow> (bool \<times> string \<times> real \<times> 't list) list" where
  "row_key by r = map (\<lambda>c. entry_key (r c)) by"

definition sort_values :: "string list \<Rightarrow> ('t::linorder) raw_frame \<Rightarrow> exn + 't raw_frame" where
  "sort_values by df =
     (case filter (\<lambda>c. c \<notin> set (columns df)) by of
        c # _ \<Rightarrow> Inl (KeyError c)
      | [] \<Rightarrow>
         if list_all (\<lambda>c. sortable (map (\<lambda>r. r c) (records df))) by
         then Inr (df\<lparr>records := sort_key (row_key by) (records df)\<rparr>)
         else Inl TypeError)"

definition required_columns :: "string list" where
  "required_columns = [''city'', ''timestamp'', ''temperature'', ''season'']"

text \<open>
  The statements after the check of the columns: the season is normalised, its
  translation is added as the column \<^verbatim>\<open>season_ru\<close>, and the rows are sorted.
\<close>

definition normalize_and_sort ::
  "config \<Rightarrow> ('t::linorder) raw_frame \<Rightarrow> exn + ('t raw_frame option \<times> load_error option)" where
  "normalize_and_sort cfg df1 =
     (case getitem df1 ''season'' of
        Inl e \<Rightarrow> Inl e
      | Inr col \<Rightarrow>
         (case str_lower_strip col of
            Inl e \<Rightarrow> Inl e
          | Inr seasons \<Rightarrow>
             (let df2 = assign ''season'' seasons df1 in
              case getitem df2 ''season'' of
                Inl e \<Rightarrow> Inl e
              | Inr col2 \<Rightarrow>
                 (case apply_translate_season cfg col2 of
                    Inl e \<Rightarrow> Inl e
                  | Inr seasons_ru \<Rightarrow>
                     (let df3 = assign ''season_ru'' seasons_ru df2 in
                      case sort_values [''city'', ''timestamp''] df3 of
                        Inl e \<Rightarrow> Inl e
                      | Inr df4 \<Rightarrow> Inr (Some df4, None))))))"

text \<open>
  The body of the \<^verbatim>\<open>try\<close> block: \<open>Inl\<close> is an exception raised in it, \<open>Inr\<close> the pair
  returned.
\<close>

definition load_body ::
  "config \<Rightarrow> ('t entry \<Rightarrow> string + 't) \<Rightarrow> ('t::linorder) uploaded_file
   \<Rightarrow> exn + ('t raw_frame option \<times> load_error option)" where
  "load_body cfg parse uploaded =
     (case uploaded of
        Unreadable msg \<Rightarrow> Inl (ReadError msg)
      | Readable df \<Rightarrow>
         (case getitem df ''timestamp'' of
            Inl e \<Rightarrow> Inl e
          | Inr col \<Rightarrow>
             (case to_datetime parse col of
                Inl e \<Rightarrow> Inl e
              | Inr ts \<Rightarrow>
                 (let df1 = assign ''timestamp'' ts df;
                      missing_columns =
                        filter (\<lambda>col. col \<notin> set (columns df1)) required_columns
                  in if missing_columns \<noteq> []
                     then Inr (None, Some (MissingColumns missing_columns))
                     else normalize_and_sort cfg df1))))"

text \<open>\<^verbatim>\<open>load_and_validate_data\<close>: the body, and the handler of \<^verbatim>\<open>except Exception\<close>.\<close>

definition load_and_validate_data ::
  "config \<Rightarrow> ('t entry \<Rightarrow> string + 't) \<Rightarrow> ('t::linorder) uploaded_file
   \<Rightarrow> 't raw_frame option \<times> load_error option" where
  "load_and_validate_data cfg parse uploaded =
     (case load_body cfg parse uploaded of
        Inl e \<Rightarrow> (None, Some (LoadFailed e))
      | Inr result \<Rightarrow> result)"

text \<open>
  A frame that the loader accepts: the four columns are there, every timestamp parses,
  every season is a text, and the cities can be compared. The temperature column has to
  be there; its entries are not looked at.
\<close>

definition parses :: "('t entry \<Rightarrow> string + 't) \<Rightarrow> 't entry \<Rightarrow> bool" where
  "parses parse x = (case parse x of Inl msg \<Rightarrow> False | Inr t \<Rightarrow> True)"

definition loadable :: "('t entry \<Rightarrow> string + 't) \<Rightarrow> 't raw_frame \<Rightarrow> bool" where
  "loadable parse df =
     (list_all (\<lambda>c. c \<in> set (columns df)) required_columns
      \<and> list_all (\<lambda>r. parses parse (r ''timestamp'')) (records df)
      \<and> list_all (\<lambda>r. is_text (r ''season'')) (records df)
      \<and> sortable (map (\<lambda>r. r ''city'') (records df)))"

text \<open>
  What the loader makes of a row before it sorts: the timestamp parsed, the season in
  lower case and stripped, its translation in the column \<^verbatim>\<open>season_ru\<close>.
\<close>

definition prepare ::
  "config \<Rightarrow> ('t entry \<Rightarrow> string + 't) \<Rightarrow> (string \<Rightarrow> 't entry) \<Rightarrow> (string \<Rightarrow> 't entry)" where
  "prepare cfg parse r =
     (let s = strip (lower (text_of (r ''season''))) in
      r(''timestamp'' := (case parse (r ''timestamp'') of Inr t \<Rightarrow> Time t | Inl msg \<Rightarrow> r ''timestamp''),
        ''season'' := Text s,
        ''season_ru'' := Text (translate_season cfg s)))"

text \<open>The columns of the frame returned: \<^verbatim>\<open>season_ru\<close> is added at the end, unless it is there.\<close>

definition loaded_columns :: "'t raw_frame \<Rightarrow> string list" where
  "loaded_columns df =
     (if ''season_ru'' \<in> set (columns df) then columns df else columns df @ [''season_ru''])"

subsection \<open>Example tables\<close>

text \<open>
  A parser that knows three days, as day numbers, and fails on everything else with the
  message of pandas. The first table is accepted although a temperature is not a
  number; the others lack a column or hold a timestamp that does not parse.
\<close>

fun example_parse :: "nat entry \<Rightarrow> string + nat" where
  "example_parse (Text s) =
     (case map_of [(''2024-01-01'', 1), (''2024-01-02'', 2), (''2024-01-03'', 3)] s of
        Some d \<Rightarrow> Inr d
      | None \<Rightarrow> Inl (''Unknown datetime string format, unable to parse: '' @ s))"
| "example_parse (Number x) = Inl ''Cannot parse a number''"
| "example_parse (Time t) = Inr t"

definition example_record ::
  "string \<Rightarrow> string \<Rightarrow> nat entry \<Rightarrow> string \<Rightarrow> (string \<Rightarrow> nat entry)" where
  "example_record c t x s =
     (\<lambda>col. Number NaN)
       (''city'' := Text c, ''timestamp'' := Text t, ''temperature'' := x, ''season'' := Text s)"

definition example_records :: "(string \<Rightarrow> nat entry) list" where
  "example_records =
     [example_record ''Moscow'' ''2024-01-02'' (Number (Num (- 5))) '' Winter'',
      example_record ''Berlin'' ''2024-01-03'' (Number (Num 1)) ''winter'',
      example_record ''Moscow'' ''2024-01-01'' (Text ''n/a'') ''WINTER'']"

definition example_table :: "nat raw_frame" where
  "example_table =
     \<lparr>columns = [''city'', ''timestamp'', ''temperature'', ''season''], records = example_records\<rparr>"

definition no_timestamp_table :: "nat raw_frame" where
  "no_timestamp_table =
     \<lparr>columns = [''city'', ''temperature'', ''season''], records = example_records\<rparr>"

definition no_temperature_table :: "nat raw_frame" where
  "no_temperature_table =
     \<lparr>columns = [''city'', ''timestamp'', ''season''], records = example_records\<rparr>"

definition bad_timestamp_table :: "nat raw_frame" where
  "bad_timestamp_table =
     \<lparr>columns = [''city'', ''timestamp'', ''temperature'', ''season''],
      records = example_records
                  @ [example_record ''Berlin'' ''yesterday'' (Number (Num 2)) ''winter'']\<rparr>"

section \<open>Properties\<close>

subsection \<open>The analyzer\<close>

lemma map_zip_self: "map (\<lambda>(r, v). g v r) (zip xs (map f xs)) = map (\<lambda>r. g (f r) r) xs"
  by (induction xs) auto

lemma temperature_set_col [simp]: "temperature (set_col c v r) = temperature r"
  and season_set_col [simp]: "season (set_col c v r) = season r"
  and timestamp_set_col [simp]: "timestamp (set_col c v r) = timestamp r"
  and city_set_col [simp]: "city (set_col c v r) = city r"
  by (simp_all add: set_col_def)

lemma season_body_eq:
  assumes "c < length st" and "st ! c = Obs crows"
  shows "season_body cfg c s acc st =
     (let sd = filter (\<lambda>r. season r = s) crows;
          sel = filter (is_anomalous cfg crows) sd in
      if sel = [] then (acc, st @ [Obs sd, Obs sel, Obs sel])
      else (acc @ [length st + 2], st @ [Obs sd, Obs sel, Obs (season_anomalies cfg crows s)]))"
proof -
  let ?sd = "filter (\<lambda>r. season r = s) crows"
  let ?sel = "filter (is_anomalous cfg crows) ?sd"
  have sel: "filter (\<lambda>r. flt (temperature r) (season_lower cfg crows s) \<or> fgt (temperature r) (season_upper cfg crows s)) ?sd
           = ?sel"
    by (rule filter_cong) (auto simp: is_anomalous_def)
  have ann: "map (\<lambda>(r, v). set_col ''deviation'' v r)
        (zip (map (set_col ''upper_bound'' (Val (season_upper cfg crows s)))
               (map (set_col ''lower_bound'' (Val (season_lower cfg crows s))) ?sel))
             (map (\<lambda>r. Val (fsub (temperature r) (series_mean (season_temps crows s))))
               (map (set_col ''upper_bound'' (Val (season_upper cfg crows s)))
                 (map (set_col ''lower_bound'' (Val (season_lower cfg crows s))) ?sel))))
      = season_anomalies cfg crows s" (is "?l = _")
  proof -
    have "?l = map (\<lambda>r. set_col ''deviation'' (Val (fsub (temperature r) (series_mean (season_temps crows s)))) r)
                 (map (set_col ''upper_bound'' (Val (season_upper cfg crows s)))
                    (map (set_col ''lower_bound'' (Val (season_lower cfg crows s))) ?sel))"
      by (rule map_zip_self)
    also have "\<dots> = map (annotate cfg crows) ?sel"
      by (auto simp: annotate_def)
    finally show ?thesis by (simp add: season_anomalies_def)
  qed
  show ?thesis
    using assms
    by (simp add: season_body_def getitem_rows_def copy_def alloc_def Let_def nth_append
        setitem_scalar_def setitem_def season_lower_def[symmetric] season_upper_def[symmetric]
        season_temps_def[symmetric] sel ann list_update_append del: filter_filter map_map)
qed

lemma season_loop_eq:
  assumes "c < length st" and "st ! c = Obs crows"
  shows "\<exists>new ext. season_loop cfg c ss acc st = (acc @ new, st @ ext)
          \<and> (\<forall>a\<in>set new. length st \<le> a \<and> a < length (st @ ext))
          \<and> map (\<lambda>a. obs_rows ((st @ ext) ! a)) new
              = filter (\<lambda>x. x \<noteq> []) (map (season_anomalies cfg crows) ss)"
  using assms
proof (induction ss arbitrary: acc st)
  case Nil
  show ?case by (rule exI[of _ "[]"], rule exI[of _ "[]"]) simp
next
  case (Cons s ss)
  let ?sd = "filter (\<lambda>r. season r = s) crows"
  let ?sel = "filter (is_anomalous cfg crows) ?sd"
  have nonempty: "season_anomalies cfg crows s = [] \<longleftrightarrow> ?sel = []"
    by (simp add: season_anomalies_def)
  show ?case
  proof (cases "?sel = []")
    case True
    let ?st1 = "st @ [Obs ?sd, Obs ?sel, Obs ?sel]"
    have body: "season_body cfg c s acc st = (acc, ?st1)"
      using season_body_eq[OF Cons.prems, of cfg s acc] True by (simp add: Let_def)
    have c1: "c < length ?st1" "?st1 ! c = Obs crows"
      using Cons.prems by (simp_all add: nth_append)
    from Cons.IH[OF c1, of acc] obtain new ext where
      L: "season_loop cfg c ss acc ?st1 = (acc @ new, ?st1 @ ext)"
      and F: "\<forall>a\<in>set new. length ?st1 \<le> a \<and> a < length (?st1 @ ext)"
      and M: "map (\<lambda>a. obs_rows ((?st1 @ ext) ! a)) new
              = filter (\<lambda>x. x \<noteq> []) (map (season_anomalies cfg crows) ss)"
      by blast
    show ?thesis
      apply (rule exI[of _ new], rule exI[of _ "[Obs ?sd, Obs ?sel, Obs ?sel] @ ext"])
      using L F M True nonempty body by (auto simp: )
  next
    case False
    let ?st1 = "st @ [Obs ?sd, Obs ?sel, Obs (season_anomalies cfg crows s)]"
    have body: "season_body cfg c s acc st = (acc @ [length st + 2], ?st1)"
      using season_body_eq[OF Cons.prems, of cfg s acc] False by (simp add: Let_def)
    have c1: "c < length ?st1" "?st1 ! c = Obs crows"
      using Cons.prems by (simp_all add: nth_append)
    from Cons.IH[OF c1, of "acc @ [length st + 2]"] obtain new ext where
      L: "season_loop cfg c ss (acc @ [length st + 2]) ?st1 = ((acc @ [length st + 2]) @ new, ?st1 @ ext)"
      and F: "\<forall>a\<in>set new. length ?st1 \<le> a \<and> a < length (?st1 @ ext)"
      and M: "map (\<lambda>a. obs_rows ((?st1 @ ext) ! a)) new
              = filter (\<lambda>x. x \<noteq> []) (map (season_anomalies cfg crows) ss)"
      by blast
    have here: "obs_rows ((?st1 @ ext) ! (length st + 2)) = season_anomalies cfg crows s"
      by (simp add: nth_append)
    show ?thesis
      apply (rule exI[of _ "(length st + 2) # new"], rule exI[of _ "[Obs ?sd, Obs ?sel, Obs (season_anomalies cfg crows s)] @ ext"])
      using L F M False nonempty body here by (auto simp: )
  qed
qed


lemma concat_filter_nonempty: "concat (filter (\<lambda>x. x \<noteq> []) xss) = concat xss"
  by (induction xss) auto

lemma filter_nonempty_Nil: "filter (\<lambda>x. x \<noteq> []) xss = [] \<longleftrightarrow> concat xss = []"
  by (induction xss) auto

lemma map_zip_index:
  "map (\<lambda>(r, v). f v r) (zip xs (map g [0..<length xs])) = map (\<lambda>i. f (g i) (xs ! i)) [0..<length xs]"
  by (rule nth_equalityI) auto

lemma analyze_city_data_error:
  assumes "ROLLING_WINDOW cfg < 1"
  shows "analyze_city_data cfg arg st =
           (Inl ValueError, st @ [Obs (sort_key timestamp (obs_rows (st ! arg))),
                                  Obs (sort_key timestamp (obs_rows (st ! arg)))])"
  using assms
  by (simp add: analyze_city_data_def sort_values_timestamp_def copy_def alloc_def
      rolling_mean_def nth_append)

lemma analyze_city_data_prefix:
  assumes "arg < length st" and "st ! arg = Obs rows" and "1 \<le> ROLLING_WINDOW cfg"
  shows "analyze_city_data cfg arg st =
     (let st6 = st @ [Obs (sort_key timestamp rows), Obs (enriched_rows cfg rows),
                      Stats (grouped_rows (enriched_rows cfg rows)),
                      Stats (season_stats_rows cfg (enriched_rows cfg rows))];
          (anomalies_list, st7) =
             season_loop cfg (length st + 1) (unique (map season (enriched_rows cfg rows))) [] st6;
          (city_anomalies, st8) =
             (if anomalies_list \<noteq> [] then concat_frames anomalies_list st7 else new_frame st7)
      in (Inr (length st + 1, length st + 3, city_anomalies), st8))"
proof -
  let ?srt = "sort_key timestamp rows"
  let ?enr = "enriched_rows cfg rows"
  let ?grp = "grouped_rows ?enr"
  let ?rm = "map (\<lambda>i. series_mean (drop (Suc i - nat (ROLLING_WINDOW cfg))
                                          (take (Suc i) (map temperature ?srt)))) [0..<length (map temperature ?srt)]"
  let ?st2 = "st @ [Obs ?srt, Obs ?srt]"
  let ?st3 = "st @ [Obs ?srt, Obs ?enr]"
  let ?st4 = "st @ [Obs ?srt, Obs ?enr, Stats ?grp]"
  let ?st5 = "st @ [Obs ?srt, Obs ?enr, Stats ?grp, Stats ?grp]"
  let ?st6 = "st @ [Obs ?srt, Obs ?enr, Stats ?grp, Stats (season_stats_rows cfg ?enr)]"
  have f1: "sort_values_timestamp arg st = (length st, st @ [Obs ?srt])"
    using assms by (simp add: sort_values_timestamp_def alloc_def)
  have f2: "copy (length st) (st @ [Obs ?srt]) = (length st + 1, ?st2)"
    by (simp add: copy_def alloc_def)
  have f3: "rolling_mean (ROLLING_WINDOW cfg) (map temperature (obs_rows (?st2 ! (length st + 1))))
             = Inr ?rm"
    using assms(3) by (simp add: rolling_mean_def nth_append)
  have enr: "map (\<lambda>(r, v). set_col (''rolling_mean_'' @ str (ROLLING_WINDOW cfg)) v r)
               (zip ?srt (map Val ?rm)) = ?enr"
    unfolding map_map enriched_rows_def Let_def rolling_col_def window_mean_def
    using map_zip_index[of "\<lambda>v r. set_col (''rolling_mean_'' @ str (ROLLING_WINDOW cfg)) v r" ?srt]
    by (simp add: comp_def)
  have f4: "setitem (length st + 1) (''rolling_mean_'' @ str (ROLLING_WINDOW cfg)) (map Val ?rm) ?st2
             = ?st3"
  proof -
    have g: "obs_rows (?st2 ! (length st + 1)) = ?srt" by (simp add: nth_append)
    have u: "?st2[length st + 1 := X] = st @ [Obs ?srt, X]" for X
      by (simp add: list_update_append)
    show ?thesis unfolding setitem_def g enr u ..
  qed
  have f5: "groupby_season_agg (length st + 1) ?st3 = (length st + 2, ?st4)"
    by (simp add: groupby_season_agg_def alloc_def nth_append grouped_rows_def season_temps_def Let_def)
  have f6: "reset_index (length st + 2) ?st4 = (length st + 3, ?st5)"
    by (simp add: reset_index_def alloc_def nth_append)
  have st_eq: "map (\<lambda>(r, v). r\<lparr>stat_extras := update_col ''season_ru'' v (stat_extras r)\<rparr>)
                 (zip ?grp (map (\<lambda>r. Txt (translate_season cfg (stat_season r))) ?grp))
               = season_stats_rows cfg ?enr"
    unfolding map_zip_self
    by (simp add: grouped_rows_def season_stats_rows_def comp_def)
  have f7: "setitem_stats (length st + 3) ''season_ru''
              (map (\<lambda>r. Txt (translate_season cfg (stat_season r))) (stats_rows (?st5 ! (length st + 3)))) ?st5
            = ?st6"
  proof -
    have g: "stats_rows (?st5 ! (length st + 3)) = ?grp" by (simp add: nth_append)
    have u: "?st5[length st + 3 := X] = st @ [Obs ?srt, Obs ?enr, Stats ?grp, X]" for X
      by (simp add: list_update_append)
    show ?thesis unfolding setitem_stats_def g st_eq u ..
  qed
  have f8: "obs_rows (?st6 ! (length st + 1)) = ?enr"
    by (simp add: nth_append)
  show ?thesis
    unfolding analyze_city_data_def
    by (simp only: f1 f2 f3 f4 f5 f6 f7 f8 Let_def prod.case sum.case)
qed

lemma analyze_city_data_eq:
  assumes "arg < length st" and "st ! arg = Obs rows" and "1 \<le> ROLLING_WINDOW cfg"
  shows "\<exists>ext. analyze_city_data cfg arg st =
             (Inr (length st + 1, length st + 3, length st + 4 + length ext),
              st @ [Obs (sort_key timestamp rows), Obs (enriched_rows cfg rows),
                    Stats (grouped_rows (enriched_rows cfg rows)),
                    Stats (season_stats_rows cfg (enriched_rows cfg rows))]
                 @ ext
                 @ [if anomaly_rows cfg (enriched_rows cfg rows) = [] then Empty
                    else Obs (anomaly_rows cfg (enriched_rows cfg rows))])"
proof -
  let ?enr = "enriched_rows cfg rows"
  let ?st6 = "st @ [Obs (sort_key timestamp rows), Obs ?enr,
                      Stats (grouped_rows ?enr), Stats (season_stats_rows cfg ?enr)]"
  have c: "length st + 1 < length ?st6" "?st6 ! (length st + 1) = Obs ?enr"
    by (simp_all add: nth_append)
  from season_loop_eq[OF c, of cfg "unique (map season ?enr)" "[]"]
  obtain new ext where
    L: "season_loop cfg (length st + 1) (unique (map season ?enr)) [] ?st6 = (new, ?st6 @ ext)"
    and M: "map (\<lambda>a. obs_rows ((?st6 @ ext) ! a)) new
              = filter (\<lambda>x. x \<noteq> []) (map (season_anomalies cfg ?enr) (unique (map season ?enr)))"
    by auto
  have cc: "concat (map (\<lambda>a. obs_rows ((?st6 @ ext) ! a)) new) = anomaly_rows cfg ?enr"
    unfolding M concat_filter_nonempty anomaly_rows_def ..
  have ne: "new = [] \<longleftrightarrow> anomaly_rows cfg ?enr = []"
    using M filter_nonempty_Nil[of "map (season_anomalies cfg ?enr) (unique (map season ?enr))"]
    unfolding anomaly_rows_def by (metis map_is_Nil_conv)
  show ?thesis
    apply (rule exI[of _ ext])
    unfolding analyze_city_data_prefix[OF assms] Let_def L
    using cc ne
    by (simp add: concat_frames_def new_frame_def alloc_def)
qed

text \<open>Reading a column that was set.\<close>

lemma map_of_update_col_same [simp]: "map_of (update_col c v al) c = Some v"
  by (induction al) auto

lemma map_of_update_col_other [simp]: "c' \<noteq> c \<Longrightarrow> map_of (update_col c v al) c' = map_of al c'"
  by (induction al) auto

lemma get_col_set_col_same [simp]: "get_col c (set_col c v r) = Some v"
  by (simp add: get_col_def set_col_def)

lemma get_col_set_col_other [simp]: "c' \<noteq> c \<Longrightarrow> get_col c' (set_col c v r) = get_col c' r"
  by (simp add: get_col_def set_col_def)

text \<open>The aggregates depend on the multiset of the values only.\<close>

lemma mset_dropna_image:
  "mset (dropna zs) =
     image_mset (\<lambda>x. case x of Num a \<Rightarrow> a | NaN \<Rightarrow> 0) (filter_mset (\<lambda>x. x \<noteq> NaN) (mset zs))"
  by (induction zs rule: dropna.induct) auto

lemma mset_dropna: "mset xs = mset ys \<Longrightarrow> mset (dropna xs) = mset (dropna ys)"
  by (simp add: mset_dropna_image)

lemma series_mean_alt:
  "series_mean xs =
     (\<lambda>M. if M = {#} then NaN else Num (sum_mset M / real (size M))) (mset (dropna xs))"
proof -
  have a: "sum_mset (mset (dropna xs)) = sum_list (dropna xs)" by (rule sum_mset_sum_list)
  show ?thesis
    by (simp only: series_mean_def Let_def a size_mset mset_zero_iff)
qed

lemma series_mean_mset: "mset xs = mset ys \<Longrightarrow> series_mean xs = series_mean ys"
proof -
  assume "mset xs = mset ys"
  then have m: "mset (dropna xs) = mset (dropna ys)" by (rule mset_dropna)
  show ?thesis by (simp only: series_mean_alt m)
qed

lemma series_std_alt:
  "series_std xs =
     (\<lambda>M. if size M \<le> 1 then NaN
          else Num (sqrt (sum_mset (image_mset (\<lambda>x. (x - sum_mset M / real (size M))\<^sup>2) M)
                          / real (size M - 1)))) (mset (dropna xs))"
proof -
  have a: "sum_mset (mset (dropna xs)) = sum_list (dropna xs)" by (rule sum_mset_sum_list)
  have b: "sum_mset (image_mset f (mset (dropna xs))) = sum_list (map f (dropna xs))" for f :: "real \<Rightarrow> real"
    by (simp only: mset_map[symmetric] sum_mset_sum_list)
  show ?thesis
    apply (simp only: series_std_def Let_def)
    apply (simp only: a b size_mset)
    done
qed

lemma series_std_mset: "mset xs = mset ys \<Longrightarrow> series_std xs = series_std ys"
proof -
  assume "mset xs = mset ys"
  then have m: "mset (dropna xs) = mset (dropna ys)" by (rule mset_dropna)
  show ?thesis by (simp only: series_std_alt m)
qed

lemma series_min_alt:
  "series_min xs = (\<lambda>M. if M = {#} then NaN else Num (Min (set_mset M))) (mset (dropna xs))"
  by (simp only: series_min_def Let_def set_mset_mset mset_zero_iff)

lemma series_max_alt:
  "series_max xs = (\<lambda>M. if M = {#} then NaN else Num (Max (set_mset M))) (mset (dropna xs))"
  by (simp only: series_max_def Let_def set_mset_mset mset_zero_iff)

lemma series_min_mset: "mset xs = mset ys \<Longrightarrow> series_min xs = series_min ys"
proof -
  assume "mset xs = mset ys"
  then have m: "mset (dropna xs) = mset (dropna ys)" by (rule mset_dropna)
  show ?thesis by (simp only: series_min_alt m)
qed

lemma series_max_mset: "mset xs = mset ys \<Longrightarrow> series_max xs = series_max ys"
proof -
  assume "mset xs = mset ys"
  then have m: "mset (dropna xs) = mset (dropna ys)" by (rule mset_dropna)
  show ?thesis by (simp only: series_max_alt m)
qed

lemma series_count_mset: "mset xs = mset ys \<Longrightarrow> series_count xs = series_count ys"
  unfolding series_count_def using mset_dropna[of xs ys] mset_eq_length by blast

lemma observation_of_set_col [simp]: "observation_of (set_col c v r) = observation_of r"
  by (simp add: observation_of_def)

lemma length_enriched_rows [simp]: "length (enriched_rows cfg rows) = length rows"
  by (simp add: enriched_rows_def Let_def)

lemma enriched_rows_nth:
  "i < length rows \<Longrightarrow>
   enriched_rows cfg rows ! i =
     set_col (rolling_col cfg)
       (Val (window_mean (nat (ROLLING_WINDOW cfg)) (map temperature (sort_key timestamp rows)) i))
       (sort_key timestamp rows ! i)"
  by (simp add: enriched_rows_def Let_def)

lemma map_enriched_rows:
  assumes "\<And>c v r. f (set_col c v r) = f r"
  shows "map f (enriched_rows cfg rows) = map f (sort_key timestamp rows)"
  by (rule nth_equalityI) (simp_all add: enriched_rows_nth assms)

lemma mset_observations_enriched:
  "mset (map observation_of (enriched_rows cfg rows)) = mset (map observation_of rows)"
  by (simp add: map_enriched_rows)

lemma season_temps_via_observation:
  "season_temps xs s =
     map (\<lambda>(c, t, x, sn). x) (filter (\<lambda>(c, t, x, sn). sn = s) (map observation_of xs))"
  by (induction xs) (auto simp: season_temps_def observation_of_def)

lemma mset_season_temps:
  assumes "mset (map observation_of xs) = mset (map observation_of ys)"
  shows "mset (season_temps xs s) = mset (season_temps ys s)"
proof -
  have "mset (season_temps zs s) =
        image_mset (\<lambda>(c, t, x, sn). x)
          (filter_mset (\<lambda>(c, t, x, sn). sn = s) (mset (map observation_of zs)))" for zs :: "'a observation list"
    unfolding season_temps_via_observation by simp
  then show ?thesis using assms by simp
qed

lemma season_temps_enriched:
  "mset (season_temps (enriched_rows cfg rows) s) = mset (season_temps rows s)"
  by (rule mset_season_temps) (rule mset_observations_enriched)

lemma season_lower_enriched [simp]:
  "season_lower cfg (enriched_rows cfg' rows) s = season_lower cfg rows s"
  unfolding season_lower_def
  using series_mean_mset[OF season_temps_enriched] series_std_mset[OF season_temps_enriched]
  by metis

lemma season_upper_enriched [simp]:
  "season_upper cfg (enriched_rows cfg' rows) s = season_upper cfg rows s"
  unfolding season_upper_def
  using series_mean_mset[OF season_temps_enriched] series_std_mset[OF season_temps_enriched]
  by metis

lemma is_anomalous_enriched [simp]:
  "is_anomalous cfg (enriched_rows cfg' rows) r = is_anomalous cfg rows r"
  by (simp add: is_anomalous_def)

lemma annotate_enriched [simp]:
  "annotate cfg (enriched_rows cfg' rows) r = annotate cfg rows r"
  unfolding annotate_def
  using series_mean_mset[OF season_temps_enriched] by (metis season_lower_enriched season_upper_enriched)

lemma is_anomalous_enriched_fun [simp]:
  "is_anomalous cfg (enriched_rows cfg' rows) = is_anomalous cfg rows"
  by (rule ext) simp

lemma annotate_enriched_fun [simp]:
  "annotate cfg (enriched_rows cfg' rows) = annotate cfg rows"
  by (rule ext) simp

lemma distinct_unique [simp]: "distinct (unique xs)"
  and set_unique [simp]: "set (unique xs) = set xs"
  by (simp_all add: unique_def)

lemma mset_concat_partition:
  "distinct ks \<Longrightarrow>
   mset (concat (map (\<lambda>k. g (filter (\<lambda>r. f r = k) xs)) ks))
     = (\<Sum>k\<in>#mset ks. mset (g (filter (\<lambda>r. f r = k) xs)))"
  by (induction ks) auto

lemma mset_partition_by_key:
  "distinct ks \<Longrightarrow>
   mset (concat (map (\<lambda>k. filter (\<lambda>r. f r = k) xs) ks)) = filter_mset (\<lambda>r. f r \<in> set ks) (mset xs)"
proof (induction ks)
  case Nil
  then show ?case by simp
next
  case (Cons k ks)
  have "filter_mset (\<lambda>r. f r = k \<or> f r \<in> set ks) (mset xs)
        = filter_mset (\<lambda>r. f r = k) (mset xs) + filter_mset (\<lambda>r. f r \<in> set ks) (mset xs)"
    using Cons.prems by (induction xs) auto
  with Cons show ?case by simp
qed

lemma season_anomalies_concat:
  "anomaly_rows cfg xs =
     map (annotate cfg xs)
       (filter (is_anomalous cfg xs)
          (concat (map (\<lambda>s. filter (\<lambda>r. season r = s) xs) (unique (map season xs)))))"
  by (simp add: anomaly_rows_def map_concat filter_concat comp_def season_anomalies_def[abs_def]
        del: filter_filter)

lemma mset_anomaly_rows:
  "mset (anomaly_rows cfg xs) = image_mset (annotate cfg xs) (filter_mset (is_anomalous cfg xs) (mset xs))"
proof -
  have "filter_mset (\<lambda>r. season r \<in> set (unique (map season xs))) (mset xs) = mset xs"
    by (rule filter_mset_cong[where g="\<lambda>_. True", simplified]) auto
  then show ?thesis
    unfolding season_anomalies_concat mset_map mset_filter
    using mset_partition_by_key[of "unique (map season xs)" season xs] by simp
qed

lemma analyze_city_data_result:
  assumes "arg < length st" and "st ! arg = Obs rows" and "1 \<le> ROLLING_WINDOW cfg"
  obtains e s n st' where
    "analyze_city_data cfg arg st = (Inr (e, s, n), st')"
    "length st \<le> e" "e < s" "s < n" "n < length st'"
    "take (length st) st' = st"
    "st' ! e = Obs (enriched_rows cfg rows)"
    "st' ! s = Stats (season_stats_rows cfg (enriched_rows cfg rows))"
    "st' ! n = (if anomaly_rows cfg (enriched_rows cfg rows) = [] then Empty
               else Obs (anomaly_rows cfg (enriched_rows cfg rows)))"
proof -
  from analyze_city_data_eq[OF assms] obtain ext where
    E: "analyze_city_data cfg arg st =
             (Inr (length st + 1, length st + 3, length st + 4 + length ext),
              st @ [Obs (sort_key timestamp rows), Obs (enriched_rows cfg rows),
                    Stats (grouped_rows (enriched_rows cfg rows)),
                    Stats (season_stats_rows cfg (enriched_rows cfg rows))]
                 @ ext
                 @ [if anomaly_rows cfg (enriched_rows cfg rows) = [] then Empty
                    else Obs (anomaly_rows cfg (enriched_rows cfg rows))])"
    by blast
  show thesis
    by (rule that[OF E]) (simp_all add: nth_append)
qed

lemma obs_rows_anomaly_frame [simp]:
  "obs_rows (if xs = [] then Empty else Obs xs) = xs"
  by simp

lemma analyze_city_data_take:
  assumes "arg < length st" and "st ! arg = Obs rows"
  shows "take (length st) (snd (analyze_city_data cfg arg st)) = st"
proof (cases "1 \<le> ROLLING_WINDOW cfg")
  case True
  from analyze_city_data_result[OF assms True] show ?thesis by (metis snd_conv)
next
  case False
  then show ?thesis by (simp add: analyze_city_data_error)
qed

lemma annotate_fields [simp]:
  "season (annotate cfg rows r) = season r"
  "temperature (annotate cfg rows r) = temperature r"
  "observation_of (annotate cfg rows r) = observation_of r"
  "get_col ''lower_bound'' (annotate cfg rows r) = Some (Val (season_lower cfg rows (season r)))"
  "get_col ''upper_bound'' (annotate cfg rows r) = Some (Val (season_upper cfg rows (season r)))"
  "get_col ''deviation'' (annotate cfg rows r)
     = Some (Val (fsub (temperature r) (series_mean (season_temps rows (season r)))))"
  by (simp_all add: annotate_def)

lemma set_anomaly_rows:
  "set (anomaly_rows cfg xs) = annotate cfg xs ` {r \<in> set xs. is_anomalous cfg xs r}"
proof -
  have "set (anomaly_rows cfg xs) = set_mset (mset (anomaly_rows cfg xs))" by simp
  also have "\<dots> = annotate cfg xs ` {r \<in> set xs. is_anomalous cfg xs r}"
    unfolding mset_anomaly_rows by auto
  finally show ?thesis .
qed

lemma is_anomalous_observation:
  "is_anomalous cfg rows r = anomalous_observation cfg rows (observation_of r)"
  by (simp add: is_anomalous_def anomalous_observation_def observation_of_def)

lemma mset_anomaly_observations:
  "mset (map observation_of (anomaly_rows cfg (enriched_rows cfg rows)))
     = mset (map observation_of (filter (is_anomalous cfg rows) rows))"
proof -
  let ?enr = "enriched_rows cfg rows"
  let ?Q = "anomalous_observation cfg rows"
  have "mset (map observation_of (anomaly_rows cfg ?enr))
        = image_mset observation_of (filter_mset (\<lambda>r. ?Q (observation_of r)) (mset ?enr))"
    by (simp add: mset_anomaly_rows multiset.map_comp comp_def
          is_anomalous_observation[symmetric])
  also have "\<dots> = filter_mset ?Q (image_mset observation_of (mset ?enr))"
    by (simp add: filter_mset_image_mset)
  also have "image_mset observation_of (mset ?enr) = image_mset observation_of (mset rows)"
    using mset_observations_enriched[of cfg rows] by simp
  also have "filter_mset ?Q (image_mset observation_of (mset rows))
        = mset (map observation_of (filter (is_anomalous cfg rows) rows))"
    by (simp add: filter_mset_image_mset is_anomalous_observation)
  finally show ?thesis .
qed

text \<open>
  Claim C1. For every store with a frame of observations \<open>rows\<close> at \<open>arg\<close>, every
  threshold and every rolling window of at least 1, \<open>analyze_city_data\<close> returns, and
  the observations of the anomaly frame are exactly the observations of the argument
  (as a multiset, so with their multiplicities) that are anomalous: whose temperature is
  strictly below \<open>season_lower\<close> = mean - k * std or strictly above \<open>season_upper\<close> =
  mean + k * std of their own season, mean and sample std taken over the temperatures of
  that season in the argument. Every row of the anomaly frame is a row of the enriched
  frame with the columns \<^verbatim>\<open>lower_bound\<close>, \<^verbatim>\<open>upper_bound\<close> and \<^verbatim>\<open>deviation\<close> =
  temperature - season mean set (\<open>annotate\<close>), and its temperature is strictly outside
  the bounds it carries. Hence the anomalies are among the observations of the argument
  and there are at most as many of them.
\<close>

theorem anomalies_are_out_of_bounds_observations:
  assumes "arg < length st" and "st ! arg = Obs rows" and "1 \<le> ROLLING_WINDOW cfg"
  shows "\<exists>city_df season_stats city_anomalies st'.
     analyze_city_data cfg arg st = (Inr (city_df, season_stats, city_anomalies), st')
   \<and> mset (map observation_of (obs_rows (st' ! city_anomalies)))
        = mset (map observation_of (filter (is_anomalous cfg rows) rows))
   \<and> (\<forall>a\<in>set (obs_rows (st' ! city_anomalies)).
        (\<exists>r\<in>set (obs_rows (st' ! city_df)). is_anomalous cfg rows r \<and> a = annotate cfg rows r)
      \<and> (flt (temperature a) (season_lower cfg rows (season a))
          \<or> fgt (temperature a) (season_upper cfg rows (season a)))
      \<and> get_col ''lower_bound'' a = Some (Val (season_lower cfg rows (season a)))
      \<and> get_col ''upper_bound'' a = Some (Val (season_upper cfg rows (season a)))
      \<and> get_col ''deviation'' a
          = Some (Val (fsub (temperature a) (series_mean (season_temps rows (season a))))))
   \<and> (\<forall>r\<in>set (obs_rows (st' ! city_df)).
        is_anomalous cfg rows r \<longrightarrow> annotate cfg rows r \<in> set (obs_rows (st' ! city_anomalies)))
   \<and> set (map observation_of (obs_rows (st' ! city_anomalies))) \<subseteq> set (map observation_of rows)
   \<and> length (obs_rows (st' ! city_anomalies)) \<le> length rows"
proof (rule analyze_city_data_result[OF assms])
  let ?enr = "enriched_rows cfg rows"
  let ?an = "anomaly_rows cfg ?enr"
  fix e s n st'
  assume R: "analyze_city_data cfg arg st = (Inr (e, s, n), st')"
    and "length st \<le> e" "e < s" "s < n" "n < length st'" "take (length st) st' = st"
    and E: "st' ! e = Obs ?enr"
    and "st' ! s = Stats (season_stats_rows cfg ?enr)"
    and N: "st' ! n = (if ?an = [] then Empty else Obs ?an)"
  have an: "obs_rows (st' ! n) = ?an" unfolding N by simp
  have en: "obs_rows (st' ! e) = ?enr" unfolding E by simp
  have M: "mset (map observation_of ?an) = mset (map observation_of (filter (is_anomalous cfg rows) rows))"
    by (rule mset_anomaly_observations)
  have S: "set ?an = annotate cfg rows ` {r \<in> set ?enr. is_anomalous cfg rows r}"
    using set_anomaly_rows[of cfg ?enr] by simp
  have A: "\<forall>a\<in>set ?an.
        (\<exists>r\<in>set ?enr. is_anomalous cfg rows r \<and> a = annotate cfg rows r)
      \<and> (flt (temperature a) (season_lower cfg rows (season a))
          \<or> fgt (temperature a) (season_upper cfg rows (season a)))
      \<and> get_col ''lower_bound'' a = Some (Val (season_lower cfg rows (season a)))
      \<and> get_col ''upper_bound'' a = Some (Val (season_upper cfg rows (season a)))
      \<and> get_col ''deviation'' a
          = Some (Val (fsub (temperature a) (series_mean (season_temps rows (season a)))))"
  proof
    fix a assume "a \<in> set ?an"
    then obtain r where r: "r \<in> set ?enr" "is_anomalous cfg rows r" "a = annotate cfg rows r"
      unfolding S by auto
    from r(2) have "flt (temperature r) (season_lower cfg rows (season r))
          \<or> fgt (temperature r) (season_upper cfg rows (season r))"
      by (simp add: is_anomalous_def)
    with r show "(\<exists>r\<in>set ?enr. is_anomalous cfg rows r \<and> a = annotate cfg rows r)
      \<and> (flt (temperature a) (season_lower cfg rows (season a))
          \<or> fgt (temperature a) (season_upper cfg rows (season a)))
      \<and> get_col ''lower_bound'' a = Some (Val (season_lower cfg rows (season a)))
      \<and> get_col ''upper_bound'' a = Some (Val (season_upper cfg rows (season a)))
      \<and> get_col ''deviation'' a
          = Some (Val (fsub (temperature a) (series_mean (season_temps rows (season a)))))"
      by (simp only: annotate_fields) blast
  qed
  have B: "\<forall>r\<in>set ?enr. is_anomalous cfg rows r \<longrightarrow> annotate cfg rows r \<in> set ?an"
    unfolding S by simp
  have C: "set (map observation_of ?an) \<subseteq> set (map observation_of rows)"
  proof -
    have "set (map observation_of ?an) = set_mset (mset (map observation_of ?an))"
      by (simp only: set_mset_mset)
    also have "\<dots> \<subseteq> set (map observation_of rows)" unfolding M by auto
    finally show ?thesis .
  qed
  have L: "length ?an \<le> length rows"
  proof -
    have "length ?an = size (mset (map observation_of ?an))" by simp
    also have "\<dots> = length (filter (is_anomalous cfg rows) rows)"
      unfolding M by (simp only: size_mset length_map)
    also have "\<dots> \<le> length rows" by simp
    finally show ?thesis .
  qed
  show ?thesis
    apply (rule exI[of _ e], rule exI[of _ s], rule exI[of _ n], rule exI[of _ st'])
    unfolding an en
    by (intro conjI R M A B C L)
qed

lemma dropna_map_Num [simp]: "dropna (map Num ts) = ts"
  by (induction ts) auto

lemma series_mean_Num:
  "ts \<noteq> [] \<Longrightarrow> series_mean (map Num ts) = Num (sum_list ts / real (length ts))"
  by (simp add: series_mean_def)

lemma dropna_nonempty: "x \<in> set xs \<Longrightarrow> x \<noteq> NaN \<Longrightarrow> dropna xs \<noteq> []"
  by (induction xs rule: dropna.induct) auto

lemma series_mean_present: "x \<in> set xs \<Longrightarrow> x \<noteq> NaN \<Longrightarrow> series_mean xs \<noteq> NaN"
  using dropna_nonempty[of x xs] by (simp add: series_mean_def Let_def)

lemma series_mean_single [simp]: "series_mean [x] = x"
  by (cases x) (simp_all add: series_mean_def)

lemma window_mean_first: "0 < w \<Longrightarrow> xs \<noteq> [] \<Longrightarrow> window_mean w xs 0 = hd xs"
  by (cases xs) (simp_all add: window_mean_def)

lemma window_contains_last:
  assumes "0 < w" and "i < length xs"
  shows "xs ! i \<in> set (drop (Suc i - w) (take (Suc i) xs))"
proof -
  have "take (Suc i) xs ! i \<in> set (drop (Suc i - w) (take (Suc i) xs))"
    unfolding set_conv_nth using assms
    by (auto simp: intro!: exI[of _ "i - (Suc i - w)"])
  then show ?thesis by simp
qed

lemma window_mean_Num:
  assumes "0 < w" and "i < length ts"
  shows "window_mean w (map Num ts) i
         = Num (sum_list (drop (Suc i - w) (take (Suc i) ts)) / real (min (Suc i) w))"
proof -
  let ?win = "drop (Suc i - w) (take (Suc i) ts)"
  have l: "length ?win = min (Suc i) w" using assms by auto
  then have ne: "?win \<noteq> []" using assms by auto
  have "window_mean w (map Num ts) i = series_mean (map Num ?win)"
    by (simp add: window_mean_def take_map drop_map)
  also have "\<dots> = Num (sum_list ?win / real (length ?win))" by (rule series_mean_Num[OF ne])
  finally show ?thesis unfolding l .
qed

lemma get_rolling_col_enriched:
  assumes "i < length rows"
  shows "get_col (rolling_col cfg) (enriched_rows cfg rows ! i)
         = Some (Val (window_mean (nat (ROLLING_WINDOW cfg)) (map temperature (enriched_rows cfg rows)) i))"
  using assms by (simp add: enriched_rows_nth map_enriched_rows)

text \<open>
  Claim C5. With a rolling window \<open>w \<ge> 1\<close> the enriched frame has one row for each row of
  the argument: the observations of the argument in ascending order of timestamp. In row \<open>i\<close> the
  column \<^verbatim>\<open>rolling_mean_w\<close> holds the mean of the temperatures of the rows
  \<open>i + 1 - w, \<dots>, i\<close> (the rows from the start when there are fewer than \<open>w\<close>), taken by
  pandas over the temperatures present; it is defined wherever the temperature of row
  \<open>i\<close> is. When no temperature is missing it is the sum of these temperatures divided by
  their number \<open>min (i + 1) w\<close>. The first value is the first temperature.
\<close>

theorem rolling_mean_column:
  assumes "arg < length st" and "st ! arg = Obs rows" and "1 \<le> ROLLING_WINDOW cfg"
  shows "\<exists>city_df season_stats city_anomalies st' out.
     analyze_city_data cfg arg st = (Inr (city_df, season_stats, city_anomalies), st')
   \<and> st' ! city_df = Obs out
   \<and> length out = length rows
   \<and> mset (map observation_of out) = mset (map observation_of rows)
   \<and> sorted (map timestamp out)
   \<and> (\<forall>i<length out.
         get_col (''rolling_mean_'' @ str (ROLLING_WINDOW cfg)) (out ! i)
           = Some (Val (series_mean (drop (Suc i - nat (ROLLING_WINDOW cfg))
                                       (take (Suc i) (map temperature out)))))
       \<and> (temperature (out ! i) \<noteq> NaN \<longrightarrow>
            get_col (''rolling_mean_'' @ str (ROLLING_WINDOW cfg)) (out ! i) \<noteq> Some (Val NaN)))
   \<and> (\<forall>ts. map temperature out = map Num ts \<longrightarrow>
         (\<forall>i<length out.
            get_col (''rolling_mean_'' @ str (ROLLING_WINDOW cfg)) (out ! i)
              = Some (Val (Num (sum_list (drop (Suc i - nat (ROLLING_WINDOW cfg)) (take (Suc i) ts))
                                / real (min (Suc i) (nat (ROLLING_WINDOW cfg))))))))
   \<and> (rows \<noteq> [] \<longrightarrow>
         get_col (''rolling_mean_'' @ str (ROLLING_WINDOW cfg)) (hd out) = Some (Val (temperature (hd out))))"
proof (rule analyze_city_data_result[OF assms])
  let ?enr = "enriched_rows cfg rows"
  let ?w = "nat (ROLLING_WINDOW cfg)"
  let ?c = "''rolling_mean_'' @ str (ROLLING_WINDOW cfg)"
  fix e s n st'
  assume R: "analyze_city_data cfg arg st = (Inr (e, s, n), st')"
    and "length st \<le> e" "e < s" "s < n" "n < length st'" "take (length st) st' = st"
    and E: "st' ! e = Obs ?enr"
    and "st' ! s = Stats (season_stats_rows cfg ?enr)"
    and "st' ! n = (if anomaly_rows cfg ?enr = [] then Empty else Obs (anomaly_rows cfg ?enr))"
  have w: "0 < ?w" using assms(3) by simp
  have c: "rolling_col cfg = ?c" by (simp add: rolling_col_def)
  have L: "length ?enr = length rows" by simp
  have O: "mset (map observation_of ?enr) = mset (map observation_of rows)"
    by (rule mset_observations_enriched)
  have O2: "sorted (map timestamp ?enr)"
    by (simp add: map_enriched_rows)
  have G: "get_col ?c (?enr ! i) = Some (Val (window_mean ?w (map temperature ?enr) i))"
    if "i < length ?enr" for i
    using get_rolling_col_enriched[of i rows cfg] that unfolding c by simp
  have A: "\<forall>i<length ?enr.
         get_col ?c (?enr ! i)
           = Some (Val (series_mean (drop (Suc i - ?w) (take (Suc i) (map temperature ?enr)))))
       \<and> (temperature (?enr ! i) \<noteq> NaN \<longrightarrow> get_col ?c (?enr ! i) \<noteq> Some (Val NaN))"
  proof (intro allI impI conjI)
    fix i assume i: "i < length ?enr"
    show "get_col ?c (?enr ! i)
           = Some (Val (series_mean (drop (Suc i - ?w) (take (Suc i) (map temperature ?enr)))))"
      using G[OF i] by (simp add: window_mean_def)
    assume t: "temperature (?enr ! i) \<noteq> NaN"
    have "map temperature ?enr ! i \<in> set (drop (Suc i - ?w) (take (Suc i) (map temperature ?enr)))"
      by (rule window_contains_last[OF w]) (use i in simp)
    with t i have "window_mean ?w (map temperature ?enr) i \<noteq> NaN"
      unfolding window_mean_def by (intro series_mean_present[where x="temperature (?enr ! i)"]) simp_all
    then show "get_col ?c (?enr ! i) \<noteq> Some (Val NaN)" using G[OF i] by simp
  qed
  have B: "\<forall>ts. map temperature ?enr = map Num ts \<longrightarrow>
         (\<forall>i<length ?enr.
            get_col ?c (?enr ! i)
              = Some (Val (Num (sum_list (drop (Suc i - ?w) (take (Suc i) ts))
                                / real (min (Suc i) ?w)))))"
  proof (intro allI impI)
    fix ts i assume ts: "map temperature ?enr = map Num ts" and i: "i < length ?enr"
    from ts have "length ts = length ?enr" by (metis length_map)
    with i have "i < length ts" by simp
    from window_mean_Num[OF w this] G[OF i] ts
    show "get_col ?c (?enr ! i)
              = Some (Val (Num (sum_list (drop (Suc i - ?w) (take (Suc i) ts))
                                / real (min (Suc i) ?w))))"
      by simp
  qed
  have F: "rows \<noteq> [] \<longrightarrow> get_col ?c (hd ?enr) = Some (Val (temperature (hd ?enr)))"
  proof
    assume ne: "rows \<noteq> []"
    then have i: "0 < length ?enr" by simp
    have nz: "?enr \<noteq> []" using ne L by (metis length_0_conv)
    then have h: "hd ?enr = ?enr ! 0" by (rule hd_conv_nth)
    have "window_mean ?w (map temperature ?enr) 0 = hd (map temperature ?enr)"
      by (rule window_mean_first[OF w]) (use nz in simp)
    also have "\<dots> = temperature (hd ?enr)" using nz by (simp add: hd_map)
    finally show "get_col ?c (hd ?enr) = Some (Val (temperature (hd ?enr)))"
      using G[OF i] unfolding h by simp
  qed
  show ?thesis
    apply (rule exI[of _ e], rule exI[of _ s], rule exI[of _ n], rule exI[of _ st'], rule exI[of _ ?enr])
    by (intro conjI R E L O O2 A B F)
qed

lemma season_keys_enriched:
  "sort (remdups (map season (enriched_rows cfg rows))) = sort (remdups (map season rows))"
proof -
  have "set (map season (enriched_rows cfg rows)) = set (map season rows)"
    by (simp add: map_enriched_rows)
  then show ?thesis
    by (metis sorted_list_of_set_sort_remdups)
qed

lemma aggregates_enriched [simp]:
  "series_mean (season_temps (enriched_rows cfg rows) s) = series_mean (season_temps rows s)"
  "series_std (season_temps (enriched_rows cfg rows) s) = series_std (season_temps rows s)"
  "series_min (season_temps (enriched_rows cfg rows) s) = series_min (season_temps rows s)"
  "series_max (season_temps (enriched_rows cfg rows) s) = series_max (season_temps rows s)"
  "series_count (season_temps (enriched_rows cfg rows) s) = series_count (season_temps rows s)"
  by (rule series_mean_mset series_std_mset series_min_mset series_max_mset series_count_mset,
      rule season_temps_enriched)+

lemma season_stats_rows_enriched:
  "season_stats_rows cfg (enriched_rows cfg' rows) = season_stats_rows cfg rows"
  unfolding season_stats_rows_def season_keys_enriched by simp

lemma series_std_Num:
  "series_std (map Num ts) =
     (if length ts \<le> 1 then NaN
      else Num (sqrt (sum_list (map (\<lambda>x. (x - sum_list ts / real (length ts))\<^sup>2) ts)
                      / real (length ts - 1))))"
  by (simp add: series_std_def Let_def)

lemma series_min_Num: "ts \<noteq> [] \<Longrightarrow> series_min (map Num ts) = Num (Min (set ts))"
  and series_max_Num: "ts \<noteq> [] \<Longrightarrow> series_max (map Num ts) = Num (Max (set ts))"
  and series_count_Num: "series_count (map Num ts) = length ts"
  by (simp_all add: series_min_def series_max_def series_count_def)

lemma season_stats_rows_keys:
  "map stat_season (season_stats_rows cfg rows) = sort (remdups (map season rows))"
  by (simp add: season_stats_rows_def comp_def)

lemma season_stats_rows_member:
  assumes "r \<in> set (season_stats_rows cfg rows)"
  shows "stat_season r \<in> season ` set rows"
    and "stat_mean r = series_mean (season_temps rows (stat_season r))"
    and "stat_std r = series_std (season_temps rows (stat_season r))"
    and "stat_min r = series_min (season_temps rows (stat_season r))"
    and "stat_max r = series_max (season_temps rows (stat_season r))"
    and "stat_count r = series_count (season_temps rows (stat_season r))"
    and "map_of (stat_extras r) ''season_ru'' = Some (Txt (translate_season cfg (stat_season r)))"
  using assms by (auto simp: season_stats_rows_def)

lemma season_temps_nonempty: "s \<in> season ` set rows \<Longrightarrow> season_temps rows s \<noteq> []"
  by (auto simp: season_temps_def filter_empty_conv)

lemma season_temps_length:
  "length (season_temps rows s) = length (filter (\<lambda>x. season x = s) rows)"
  by (simp add: season_temps_def)

lemma sqrt_one_sample: "sqrt ((1 + 1 + 0) / 2) = (1::real)"
  by simp

text \<open>
  Claim C6. The season statistics have one row for each season of the argument, and none
  for any other season, in ascending order of the season. A row holds the pandas
  aggregates of the temperatures of its season. When no temperature of the season is
  missing these are: the number of observations of the season, their arithmetic mean,
  the sample standard deviation with divisor \<open>n - 1\<close> (NaN for a single observation),
  the minimum and the maximum. A season with the temperatures -5, -7, -6 has mean -6,
  std 1 and count 3.
\<close>

theorem season_stats_table:
  assumes "arg < length st" and "st ! arg = Obs rows" and "1 \<le> ROLLING_WINDOW cfg"
  shows "\<exists>city_df season_stats city_anomalies st' tbl.
     analyze_city_data cfg arg st = (Inr (city_df, season_stats, city_anomalies), st')
   \<and> st' ! season_stats = Stats tbl
   \<and> distinct (map stat_season tbl) \<and> sorted (map stat_season tbl)
   \<and> set (map stat_season tbl) = season ` set rows
   \<and> (\<forall>r\<in>set tbl.
         stat_mean r = series_mean (season_temps rows (stat_season r))
       \<and> stat_std r = series_std (season_temps rows (stat_season r))
       \<and> stat_min r = series_min (season_temps rows (stat_season r))
       \<and> stat_max r = series_max (season_temps rows (stat_season r))
       \<and> stat_count r = series_count (season_temps rows (stat_season r))
       \<and> map_of (stat_extras r) ''season_ru'' = Some (Txt (translate_season cfg (stat_season r))))
   \<and> (\<forall>r\<in>set tbl. \<forall>ts. season_temps rows (stat_season r) = map Num ts \<longrightarrow>
         ts \<noteq> []
       \<and> stat_count r = length (filter (\<lambda>x. season x = stat_season r) rows)
       \<and> stat_count r = length ts
       \<and> stat_mean r = Num (sum_list ts / real (length ts))
       \<and> stat_std r =
           (if length ts = 1 then NaN
            else Num (sqrt (sum_list (map (\<lambda>x. (x - sum_list ts / real (length ts))\<^sup>2) ts)
                            / real (length ts - 1))))
       \<and> stat_min r = Num (Min (set ts)) \<and> stat_max r = Num (Max (set ts)))
   \<and> (\<forall>s. season_temps rows s = [Num (- 5), Num (- 7), Num (- 6)] \<longrightarrow>
         (\<exists>r\<in>set tbl. stat_season r = s \<and> stat_mean r = Num (- 6) \<and> stat_std r = Num 1
             \<and> stat_count r = 3 \<and> stat_min r = Num (- 7) \<and> stat_max r = Num (- 5)))"
proof (rule analyze_city_data_result[OF assms])
  let ?enr = "enriched_rows cfg rows"
  let ?tbl = "season_stats_rows cfg rows"
  fix e s n st'
  assume R: "analyze_city_data cfg arg st = (Inr (e, s, n), st')"
    and "length st \<le> e" "e < s" "s < n" "n < length st'" "take (length st) st' = st"
    and "st' ! e = Obs ?enr"
    and S0: "st' ! s = Stats (season_stats_rows cfg ?enr)"
    and "st' ! n = (if anomaly_rows cfg ?enr = [] then Empty else Obs (anomaly_rows cfg ?enr))"
  have S: "st' ! s = Stats ?tbl" using S0 by (simp only: season_stats_rows_enriched)
  have K1: "distinct (map stat_season ?tbl)" and K2: "sorted (map stat_season ?tbl)"
    and K3: "set (map stat_season ?tbl) = season ` set rows"
    unfolding season_stats_rows_keys by simp_all
  have A: "\<forall>r\<in>set ?tbl.
         stat_mean r = series_mean (season_temps rows (stat_season r))
       \<and> stat_std r = series_std (season_temps rows (stat_season r))
       \<and> stat_min r = series_min (season_temps rows (stat_season r))
       \<and> stat_max r = series_max (season_temps rows (stat_season r))
       \<and> stat_count r = series_count (season_temps rows (stat_season r))
       \<and> map_of (stat_extras r) ''season_ru'' = Some (Txt (translate_season cfg (stat_season r)))"
    by (intro ballI conjI season_stats_rows_member)
  have B: "\<forall>r\<in>set ?tbl. \<forall>ts. season_temps rows (stat_season r) = map Num ts \<longrightarrow>
         ts \<noteq> []
       \<and> stat_count r = length (filter (\<lambda>x. season x = stat_season r) rows)
       \<and> stat_count r = length ts
       \<and> stat_mean r = Num (sum_list ts / real (length ts))
       \<and> stat_std r =
           (if length ts = 1 then NaN
            else Num (sqrt (sum_list (map (\<lambda>x. (x - sum_list ts / real (length ts))\<^sup>2) ts)
                            / real (length ts - 1))))
       \<and> stat_min r = Num (Min (set ts)) \<and> stat_max r = Num (Max (set ts))"
  proof (intro ballI allI impI)
    fix r ts assume r: "r \<in> set ?tbl" and ts: "season_temps rows (stat_season r) = map Num ts"
    have ne: "ts \<noteq> []"
      using season_temps_nonempty[OF season_stats_rows_member(1)[OF r]] ts by auto
    have len: "length ts = length (filter (\<lambda>x. season x = stat_season r) rows)"
      using season_temps_length[of rows "stat_season r"] ts by simp
    have l1: "length ts \<le> 1 \<longleftrightarrow> length ts = 1" using ne by (cases ts) auto
    show "ts \<noteq> []
       \<and> stat_count r = length (filter (\<lambda>x. season x = stat_season r) rows)
       \<and> stat_count r = length ts
       \<and> stat_mean r = Num (sum_list ts / real (length ts))
       \<and> stat_std r =
           (if length ts = 1 then NaN
            else Num (sqrt (sum_list (map (\<lambda>x. (x - sum_list ts / real (length ts))\<^sup>2) ts)
                            / real (length ts - 1))))
       \<and> stat_min r = Num (Min (set ts)) \<and> stat_max r = Num (Max (set ts))"
      unfolding season_stats_rows_member[OF r] ts series_count_Num series_mean_Num[OF ne]
        series_min_Num[OF ne] series_max_Num[OF ne] series_std_Num l1 len[symmetric]
      using ne by simp
  qed
  have C: "\<forall>s. season_temps rows s = [Num (- 5), Num (- 7), Num (- 6)] \<longrightarrow>
         (\<exists>r\<in>set ?tbl. stat_season r = s \<and> stat_mean r = Num (- 6) \<and> stat_std r = Num 1
             \<and> stat_count r = 3 \<and> stat_min r = Num (- 7) \<and> stat_max r = Num (- 5))"
  proof (intro allI impI)
    fix s assume ts: "season_temps rows s = [Num (- 5), Num (- 7), Num (- 6)]"
    then have "season_temps rows s \<noteq> []" by simp
    then have "s \<in> season ` set rows" by (auto simp: season_temps_def filter_empty_conv)
    then have "s \<in> set (map stat_season ?tbl)" unfolding K3 .
    then obtain r where r: "r \<in> set ?tbl" "stat_season r = s" by auto
    have "stat_mean r = Num (- 6)" "stat_std r = Num 1" "stat_count r = 3"
      "stat_min r = Num (- 7)" "stat_max r = Num (- 5)"
      unfolding season_stats_rows_member[OF r(1)] r(2) ts
      by (simp_all add: series_mean_def series_std_def series_count_def series_min_def series_max_def)
    with r show "\<exists>r\<in>set ?tbl. stat_season r = s \<and> stat_mean r = Num (- 6) \<and> stat_std r = Num 1
             \<and> stat_count r = 3 \<and> stat_min r = Num (- 7) \<and> stat_max r = Num (- 5)"
      by blast
  qed
  show ?thesis
    apply (rule exI[of _ e], rule exI[of _ s], rule exI[of _ n], rule exI[of _ st'], rule exI[of _ ?tbl])
    by (intro conjI R S K1 K2 K3 A B C)
qed

lemma flt_NaN [simp]: "flt x NaN = False" and fgt_NaN [simp]: "fgt x NaN = False"
  by (cases x; simp)+

lemma fmul_NaN [simp]: "fmul x NaN = NaN" and fsub_NaN [simp]: "fsub x NaN = NaN"
  and fadd_NaN [simp]: "fadd x NaN = NaN"
  by (cases x; simp)+

lemma length_dropna: "length (dropna xs) \<le> length xs"
  by (induction xs rule: dropna.induct) auto

lemma series_std_short: "length xs \<le> 1 \<Longrightarrow> series_std xs = NaN"
  using length_dropna[of xs] by (simp add: series_std_def Let_def)

lemma not_anomalous_undefined_std:
  "series_std (season_temps rows (season r)) = NaN \<Longrightarrow> \<not> is_anomalous cfg rows r"
  by (simp add: is_anomalous_def season_lower_def season_upper_def)

lemma analyze_city_data_no_error:
  assumes "arg < length st" and "st ! arg = Obs rows"
  shows "(\<exists>e s n st'. analyze_city_data cfg arg st = (Inr (e, s, n), st')) \<longleftrightarrow> 1 \<le> ROLLING_WINDOW cfg"
proof (cases "1 \<le> ROLLING_WINDOW cfg")
  case True
  from analyze_city_data_result[OF assms True] show ?thesis using True by metis
next
  case False
  then show ?thesis by (simp add: analyze_city_data_error)
qed

text \<open>
  Claim C7, as the code has it. The analyzer raises nothing on degenerate statistics:
  with a window of at least 1 it returns whatever the temperatures are, and a season with
  exactly one observation (more generally, one whose std is NaN) has no row in the
  anomaly frame. The classifier on a row whose std is NaN or 0 returns
  deviation_in_std = 0; with std = NaN the flag \<open>is_normal\<close> is false, and with std = 0 it
  is true exactly when the current temperature is the mean.
\<close>

theorem degenerate_statistics:
  "(arg < length st \<and> st ! arg = Obs rows \<and> 1 \<le> ROLLING_WINDOW cfg \<longrightarrow>
      (\<exists>city_df season_stats city_anomalies st'.
          analyze_city_data cfg arg st = (Inr (city_df, season_stats, city_anomalies), st')
        \<and> (\<forall>s. length (filter (\<lambda>r. season r = s) rows) = 1
                \<or> series_std (season_temps rows s) = NaN \<longrightarrow>
              (\<forall>a\<in>set (obs_rows (st' ! city_anomalies)). season a \<noteq> s))))
   \<and> (filter (\<lambda>r. stat_season r = sn) tbl = r # rest
        \<and> (stat_std r = NaN \<or> stat_std r = Num 0) \<longrightarrow>
       (let res = check_temperature_normality cfg cur sn tbl in
          no_data res = False
        \<and> deviation_in_std res = Some (Num 0)
        \<and> (stat_std r = NaN \<longrightarrow> is_normal res = Some False)
        \<and> (stat_std r = Num 0 \<longrightarrow> is_normal res = Some (cur = stat_mean r \<and> cur \<noteq> NaN))))"
proof (intro conjI impI)
  assume H: "arg < length st \<and> st ! arg = Obs rows \<and> 1 \<le> ROLLING_WINDOW cfg"
  then have assms: "arg < length st" "st ! arg = Obs rows" "1 \<le> ROLLING_WINDOW cfg" by simp_all
  show "\<exists>city_df season_stats city_anomalies st'.
          analyze_city_data cfg arg st = (Inr (city_df, season_stats, city_anomalies), st')
        \<and> (\<forall>s. length (filter (\<lambda>r. season r = s) rows) = 1
                \<or> series_std (season_temps rows s) = NaN \<longrightarrow>
              (\<forall>a\<in>set (obs_rows (st' ! city_anomalies)). season a \<noteq> s))"
  proof (rule analyze_city_data_result[OF assms])
    let ?enr = "enriched_rows cfg rows"
    let ?an = "anomaly_rows cfg ?enr"
    fix e s n st'
    assume R: "analyze_city_data cfg arg st = (Inr (e, s, n), st')"
      and "length st \<le> e" "e < s" "s < n" "n < length st'" "take (length st) st' = st"
      and "st' ! e = Obs ?enr"
      and "st' ! s = Stats (season_stats_rows cfg ?enr)"
      and N: "st' ! n = (if ?an = [] then Empty else Obs ?an)"
    have an: "obs_rows (st' ! n) = ?an" unfolding N by simp
    have S: "set ?an = annotate cfg rows ` {r \<in> set ?enr. is_anomalous cfg rows r}"
      using set_anomaly_rows[of cfg ?enr] by simp
    have A: "\<forall>sn. length (filter (\<lambda>r. season r = sn) rows) = 1
                \<or> series_std (season_temps rows sn) = NaN \<longrightarrow>
              (\<forall>a\<in>set ?an. season a \<noteq> sn)"
    proof (intro allI impI ballI)
      fix sn a
      assume d: "length (filter (\<lambda>r. season r = sn) rows) = 1
                \<or> series_std (season_temps rows sn) = NaN"
        and a: "a \<in> set ?an"
      have nan: "series_std (season_temps rows sn) = NaN"
        using d series_std_short[of "season_temps rows sn"] season_temps_length[of rows sn] by auto
      from a obtain r where r: "is_anomalous cfg rows r" "a = annotate cfg rows r"
        unfolding S by auto
      show "season a \<noteq> sn"
      proof
        assume "season a = sn"
        with r(2) have "season r = sn" by simp
        with nan not_anomalous_undefined_std[of rows r cfg] r(1) show False by simp
      qed
    qed
    show ?thesis
      apply (rule exI[of _ e], rule exI[of _ s], rule exI[of _ n], rule exI[of _ st'])
      unfolding an by (intro conjI R A)
  qed
next
  assume H: "filter (\<lambda>r. stat_season r = sn) tbl = r # rest
        \<and> (stat_std r = NaN \<or> stat_std r = Num 0)"
  then show "let res = check_temperature_normality cfg cur sn tbl in
          no_data res = False
        \<and> deviation_in_std res = Some (Num 0)
        \<and> (stat_std r = NaN \<longrightarrow> is_normal res = Some False)
        \<and> (stat_std r = Num 0 \<longrightarrow> is_normal res = Some (cur = stat_mean r \<and> cur \<noteq> NaN))"
    by (cases "stat_mean r"; cases cur)
       (auto simp add: check_temperature_normality_def Let_def)
qed

text \<open>
  The claim as written gives a false or undefined flag on a zero std as well. With
  std = 0, mean 5 and the current temperature 5 the flag is true.
\<close>

theorem degenerate_zero_std_counterexample:
  "stat_std zero_std_row = Num 0
   \<and> is_normal (check_temperature_normality example_config (Num 5) ''winter'' [zero_std_row])
       = Some True
   \<and> is_normal (check_temperature_normality example_config (Num 5) ''winter'' [zero_std_row])
       \<noteq> Some False
   \<and> is_normal (check_temperature_normality example_config (Num 5) ''winter'' [zero_std_row])
       \<noteq> None"
  by (simp add: check_temperature_normality_def Let_def zero_std_row_def)

lemma analyze_city_data_contents:
  assumes "arg < length st" and "st ! arg = Obs rows"
  shows "(case analyze_city_data cfg arg st of
            (Inl x, st') \<Rightarrow> x = ValueError \<and> ROLLING_WINDOW cfg < 1
          | (Inr (e, s, n), st') \<Rightarrow>
              1 \<le> ROLLING_WINDOW cfg
            \<and> st' ! e = Obs (enriched_rows cfg rows)
            \<and> st' ! s = Stats (season_stats_rows cfg rows)
            \<and> st' ! n = (if anomaly_rows cfg (enriched_rows cfg rows) = [] then Empty
                         else Obs (anomaly_rows cfg (enriched_rows cfg rows))))"
proof (cases "1 \<le> ROLLING_WINDOW cfg")
  case True
  show ?thesis
  proof (rule analyze_city_data_result[OF assms True])
    let ?enr = "enriched_rows cfg rows"
    fix e s n st'
    assume R: "analyze_city_data cfg arg st = (Inr (e, s, n), st')"
      and "length st \<le> e" "e < s" "s < n" "n < length st'" "take (length st) st' = st"
      and E: "st' ! e = Obs ?enr"
      and S: "st' ! s = Stats (season_stats_rows cfg ?enr)"
      and N: "st' ! n = (if anomaly_rows cfg ?enr = [] then Empty else Obs (anomaly_rows cfg ?enr))"
    show ?thesis unfolding R using True E S N by (simp add: season_stats_rows_enriched)
  qed
next
  case False
  then show ?thesis by (simp add: analyze_city_data_error)
qed

lemma analyze_city_data_kept:
  assumes "arg < length st" and "st ! arg = Obs rows"
  shows "length st \<le> length (snd (analyze_city_data cfg arg st))"
    and "a < length st \<Longrightarrow> snd (analyze_city_data cfg arg st) ! a = st ! a"
proof -
  let ?st' = "snd (analyze_city_data cfg arg st)"
  have t: "take (length st) ?st' = st" by (rule analyze_city_data_take[OF assms])
  show "length st \<le> length ?st'"
    by (metis t length_take min.cobounded1)
  show "?st' ! a = st ! a" if "a < length st"
    using nth_take[OF that, of ?st'] unfolding t by simp
qed

lemma same_results_contents:
  assumes "a1 < length st1" and "st1 ! a1 = Obs rows"
    and "a2 < length st2" and "st2 ! a2 = Obs rows"
  shows "same_results (analyze_city_data cfg a1 st1) (analyze_city_data cfg a2 st2)"
  unfolding same_results_def
  using analyze_city_data_contents[OF assms(1,2), of cfg]
        analyze_city_data_contents[OF assms(3,4), of cfg]
  by (auto split: prod.splits sum.splits)

lemma first_index_Cons:
  "first_index (z # zs) x = (if x = z then 0 else Suc (first_index zs x))"
  by (auto simp: first_index_def)

lemma remdups_snoc: "remdups (xs @ [z]) = filter (\<lambda>y. y \<noteq> z) (remdups xs) @ [z]"
  by (induction xs) auto

lemma unique_Cons: "unique (z # zs) = z # filter (\<lambda>y. y \<noteq> z) (unique zs)"
  by (simp add: unique_def remdups_snoc rev_filter)

lemma sorted_first_index_unique: "sorted (map (first_index zs) (unique zs))"
proof (induction zs)
  case Nil
  show ?case by (simp add: unique_def)
next
  case (Cons z zs)
  have "sorted (map (first_index zs) (filter (\<lambda>y. y \<noteq> z) (unique zs)))"
    using Cons.IH by (rule sorted_filter)
  then have "sorted (map Suc (map (first_index zs) (filter (\<lambda>y. y \<noteq> z) (unique zs))))"
    by (simp add: sorted_wrt_map sorted_wrt_iff_nth_less del: map_map)
  moreover have "map (first_index (z # zs)) (filter (\<lambda>y. y \<noteq> z) (unique zs))
                 = map Suc (map (first_index zs) (filter (\<lambda>y. y \<noteq> z) (unique zs)))"
    by (auto simp: first_index_Cons)
  ultimately have "sorted (map (first_index (z # zs)) (filter (\<lambda>y. y \<noteq> z) (unique zs)))"
    by (simp only:)
  moreover have "first_index (z # zs) z = 0"
    by (simp add: first_index_Cons)
  ultimately show ?case
    by (simp add: unique_Cons)
qed

lemma sorted_concat_blocks:
  assumes "sorted (map r ks)" and "\<And>k a. k \<in> set ks \<Longrightarrow> a \<in> set (B k) \<Longrightarrow> key a = k"
  shows "sorted (map (\<lambda>a. r (key a)) (concat (map B ks)))"
  using assms
proof (induction ks)
  case Nil
  show ?case by simp
next
  case (Cons k ks)
  have hd: "map (\<lambda>a. r (key a)) (B k) = replicate (length (B k)) (r k)"
    using Cons.prems(2)[of k] by (intro replicate_eqI) auto
  have tl: "sorted (map (\<lambda>a. r (key a)) (concat (map B ks)))"
    using Cons.prems by (intro Cons.IH) auto
  have le: "r k \<le> r (key a)" if "a \<in> set (concat (map B ks))" for a
  proof -
    from that obtain k' where k': "k' \<in> set ks" "a \<in> set (B k')" by auto
    then have "key a = k'" using Cons.prems(2)[of k' a] by simp
    with k' Cons.prems(1) show ?thesis by auto
  qed
  show ?case
    using tl le by (auto simp: sorted_append hd)
qed

lemma filter_concat_blocks:
  assumes "distinct ks" and "\<And>k a. k \<in> set ks \<Longrightarrow> a \<in> set (B k) \<Longrightarrow> key a = k"
  shows "filter (\<lambda>a. key a = s) (concat (map B ks)) = (if s \<in> set ks then B s else [])"
  using assms
proof (induction ks)
  case Nil
  show ?case by simp
next
  case (Cons k ks)
  have IH: "filter (\<lambda>a. key a = s) (concat (map B ks)) = (if s \<in> set ks then B s else [])"
    using Cons.prems by (intro Cons.IH) auto
  have hd: "filter (\<lambda>a. key a = s) (B k) = (if s = k then B k else [])"
    using Cons.prems(2)[of k] by (auto simp: filter_empty_conv intro!: filter_True)
  show ?case using Cons.prems(1) by (auto simp: IH hd)
qed

lemma season_anomalies_season:
  "a \<in> set (season_anomalies cfg xs s) \<Longrightarrow> season a = s"
  by (auto simp: season_anomalies_def)

lemma anomaly_rows_block_order:
  "sorted (map (\<lambda>a. first_index (map season xs) (season a)) (anomaly_rows cfg xs))"
  unfolding anomaly_rows_def
  by (rule sorted_concat_blocks[OF sorted_first_index_unique]) (rule season_anomalies_season)

lemma anomaly_rows_of_season:
  "filter (\<lambda>a. season a = s) (anomaly_rows cfg xs)
     = map (annotate cfg xs) (filter (\<lambda>r. season r = s \<and> is_anomalous cfg xs r) xs)"
proof -
  have "filter (\<lambda>a. season a = s) (anomaly_rows cfg xs)
          = (if s \<in> set (unique (map season xs)) then season_anomalies cfg xs s else [])"
    unfolding anomaly_rows_def
    by (rule filter_concat_blocks[OF distinct_unique]) (rule season_anomalies_season)
  also have "\<dots> = season_anomalies cfg xs s"
    by (auto simp: season_anomalies_def filter_empty_conv)
  also have "\<dots> = map (annotate cfg xs) (filter (\<lambda>r. season r = s \<and> is_anomalous cfg xs r) xs)"
    by (simp add: season_anomalies_def conj_commute)
  finally show ?thesis .
qed

lemma filter_key_distinct:
  "distinct (map f zs) \<Longrightarrow> k \<in> set zs \<Longrightarrow> filter (\<lambda>x. f k = f x) zs = [k]"
proof (induction zs)
  case Nil
  then show ?case by simp
next
  case (Cons z zs)
  show ?case
  proof (cases "k = z")
    case True
    have "filter (\<lambda>x. f z = f x) zs = []"
      using Cons.prems(1) by (auto simp: filter_empty_conv)
    with True show ?thesis by simp
  next
    case False
    with Cons.prems have "k \<in> set zs" "f k \<noteq> f z" by (auto simp: image_iff)
    with Cons show ?thesis by simp
  qed
qed

lemma sort_key_permutation:
  assumes "mset ys = mset xs" and "distinct (map f xs)"
  shows "sort_key f ys = sort_key f xs"
proof (rule properties_for_sort_key)
  show "mset (sort_key f xs) = mset ys" using assms(1) by simp
  show "sorted (map f (sort_key f xs))" by simp
  fix k assume "k \<in> set (sort_key f xs)"
  then have k: "k \<in> set xs" by simp
  have "mset (map f ys) = mset (map f xs)" using assms(1) by simp
  then have dy: "distinct (map f ys)" using assms(2) by (metis mset_eq_imp_distinct_iff)
  have "mset (map f (sort_key f xs)) = mset (map f xs)" by simp
  then have ds: "distinct (map f (sort_key f xs))" using assms(2) by (metis mset_eq_imp_distinct_iff)
  have ky: "k \<in> set ys" using k assms(1) by (metis mset_eq_setD)
  have ks: "k \<in> set (sort_key f xs)" using k by simp
  show "filter (\<lambda>x. f k = f x) (sort_key f xs) = filter (\<lambda>x. f k = f x) ys"
    unfolding filter_key_distinct[OF ds ks] filter_key_distinct[OF dy ky] ..
qed

lemma enriched_rows_permutation:
  assumes "mset rows2 = mset rows" and "rows2 = rows \<or> distinct (map timestamp rows)"
  shows "enriched_rows cfg rows2 = enriched_rows cfg rows"
proof -
  have "sort_key timestamp rows2 = sort_key timestamp rows"
    using assms sort_key_permutation[of rows2 rows timestamp] by blast
  then show ?thesis by (simp only: enriched_rows_def)
qed

lemma same_results_permutation:
  assumes "a1 < length st1" and "st1 ! a1 = Obs rows"
    and "a2 < length st2" and "st2 ! a2 = Obs rows2"
    and "mset rows2 = mset rows" and "rows2 = rows \<or> distinct (map timestamp rows)"
  shows "same_results (analyze_city_data cfg a1 st1) (analyze_city_data cfg a2 st2)"
proof -
  have e: "enriched_rows cfg rows2 = enriched_rows cfg rows"
    by (rule enriched_rows_permutation[OF assms(5,6)])
  have "season_stats_rows cfg rows2 = season_stats_rows cfg (enriched_rows cfg rows2)"
    by (simp only: season_stats_rows_enriched)
  also have "\<dots> = season_stats_rows cfg rows"
    unfolding e by (simp only: season_stats_rows_enriched)
  finally have s: "season_stats_rows cfg rows2 = season_stats_rows cfg rows" .
  show ?thesis
    unfolding same_results_def
    using analyze_city_data_contents[OF assms(1,2), of cfg]
          analyze_city_data_contents[OF assms(3,4), of cfg]
    unfolding e s
    by (auto split: prod.splits sum.splits)
qed

lemma analyze_city_data_order:
  assumes "arg < length st" and "st ! arg = Obs rows"
  shows "(case analyze_city_data cfg arg st of
            (Inl err, st') \<Rightarrow> ROLLING_WINDOW cfg < 1
          | (Inr (city_df, season_stats, city_anomalies), st') \<Rightarrow>
              (let out = obs_rows (st' ! city_df);
                   tbl = stats_rows (st' ! season_stats);
                   an = obs_rows (st' ! city_anomalies)
               in mset (map observation_of out) = mset (map observation_of rows)
                \<and> sorted (map timestamp out)
                \<and> sorted (map stat_season tbl) \<and> distinct (map stat_season tbl)
                \<and> set (map stat_season tbl) = season ` set rows
                \<and> sorted (map (\<lambda>a. first_index (map season out) (season a)) an)
                \<and> (\<forall>s. filter (\<lambda>a. season a = s) an
                        = map (annotate cfg rows)
                            (filter (\<lambda>r. season r = s \<and> is_anomalous cfg rows r) out))))"
proof (cases "1 \<le> ROLLING_WINDOW cfg")
  case True
  show ?thesis
  proof (rule analyze_city_data_result[OF assms True])
    let ?enr = "enriched_rows cfg rows"
    fix e s n st'
    assume R: "analyze_city_data cfg arg st = (Inr (e, s, n), st')"
      and "length st \<le> e" "e < s" "s < n" "n < length st'" "take (length st) st' = st"
      and E: "st' ! e = Obs ?enr"
      and S: "st' ! s = Stats (season_stats_rows cfg ?enr)"
      and N: "st' ! n = (if anomaly_rows cfg ?enr = [] then Empty else Obs (anomaly_rows cfg ?enr))"
    have out: "obs_rows (st' ! e) = ?enr" using E by simp
    have tbl: "stats_rows (st' ! s) = season_stats_rows cfg rows"
      using S by (simp add: season_stats_rows_enriched)
    have an: "obs_rows (st' ! n) = anomaly_rows cfg ?enr" using N by simp
    have f1: "mset (map observation_of ?enr) = mset (map observation_of rows)"
      by (rule mset_observations_enriched)
    have f2: "sorted (map timestamp ?enr)"
      by (simp add: map_enriched_rows)
    have f3: "sorted (map stat_season (season_stats_rows cfg rows))"
      "distinct (map stat_season (season_stats_rows cfg rows))"
      "set (map stat_season (season_stats_rows cfg rows)) = season ` set rows"
      by (simp_all add: season_stats_rows_keys)
    have f4: "sorted (map (\<lambda>a. first_index (map season ?enr) (season a)) (anomaly_rows cfg ?enr))"
      by (rule anomaly_rows_block_order)
    have f5: "filter (\<lambda>a. season a = k) (anomaly_rows cfg ?enr)
                = map (annotate cfg rows)
                    (filter (\<lambda>r. season r = k \<and> is_anomalous cfg rows r) ?enr)" for k
      using anomaly_rows_of_season[of k cfg ?enr] by simp
    show ?thesis
      unfolding R
      by (simp only: prod.case sum.case Let_def out tbl an f1 f2 f3 f4 f5 simp_thms)
  qed
next
  case False
  then show ?thesis by (simp add: analyze_city_data_error)
qed

text \<open>
  Claim C8. The three frames that a call returns are fixed by the observations and the
  configuration, and so is the order of their rows. The enriched frame holds the
  observations of the argument by ascending timestamp; the season statistics have one row
  for each season of the argument, by ascending season name; in the anomaly frame the
  seasons come in the order in which they first appear in the enriched frame, and the
  anomalies of one season are the annotated anomalous rows of the enriched frame, in the
  order of that frame. Hence two calls with the same configuration return the same
  (\<open>same_results\<close>: equal enriched frames, equal season statistics and equal anomaly
  frames, row by row) when their arguments hold the same rows, in any two stores, also
  when the rows are in another order, provided that no two observations share a
  timestamp; and a second call on the same argument, in the store that the first call
  left, returns the same as the first.
\<close>

theorem analyze_city_data_deterministic:
  assumes "a1 < length st1" and "st1 ! a1 = Obs rows"
    and "a2 < length st2" and "st2 ! a2 = Obs rows2"
    and "mset rows2 = mset rows"
    and "rows2 = rows \<or> distinct (map timestamp rows)"
  shows "same_results (analyze_city_data cfg a1 st1) (analyze_city_data cfg a2 st2)
       \<and> same_results (analyze_city_data cfg a1 st1)
            (analyze_city_data cfg a1 (snd (analyze_city_data cfg a1 st1)))
       \<and> (case analyze_city_data cfg a1 st1 of
            (Inl err, st') \<Rightarrow> ROLLING_WINDOW cfg < 1
          | (Inr (city_df, season_stats, city_anomalies), st') \<Rightarrow>
              (let out = obs_rows (st' ! city_df);
                   tbl = stats_rows (st' ! season_stats);
                   an = obs_rows (st' ! city_anomalies)
               in mset (map observation_of out) = mset (map observation_of rows)
                \<and> sorted (map timestamp out)
                \<and> sorted (map stat_season tbl) \<and> distinct (map stat_season tbl)
                \<and> set (map stat_season tbl) = season ` set rows
                \<and> sorted (map (\<lambda>a. first_index (map season out) (season a)) an)
                \<and> (\<forall>s. filter (\<lambda>a. season a = s) an
                        = map (annotate cfg rows)
                            (filter (\<lambda>r. season r = s \<and> is_anomalous cfg rows r) out))))"
proof (intro conjI)
  show "same_results (analyze_city_data cfg a1 st1) (analyze_city_data cfg a2 st2)"
    by (rule same_results_permutation[OF assms])
  let ?st' = "snd (analyze_city_data cfg a1 st1)"
  have "a1 < length ?st'"
    using analyze_city_data_kept(1)[OF assms(1,2), of cfg] assms(1) by simp
  moreover have "?st' ! a1 = Obs rows"
    using analyze_city_data_kept(2)[OF assms(1,2) assms(1), of cfg] assms(2) by simp
  ultimately show "same_results (analyze_city_data cfg a1 st1) (analyze_city_data cfg a1 ?st')"
    by (rule same_results_contents[OF assms(1,2)])
  show "(case analyze_city_data cfg a1 st1 of
            (Inl err, st') \<Rightarrow> ROLLING_WINDOW cfg < 1
          | (Inr (city_df, season_stats, city_anomalies), st') \<Rightarrow>
              (let out = obs_rows (st' ! city_df);
                   tbl = stats_rows (st' ! season_stats);
                   an = obs_rows (st' ! city_anomalies)
               in mset (map observation_of out) = mset (map observation_of rows)
                \<and> sorted (map timestamp out)
                \<and> sorted (map stat_season tbl) \<and> distinct (map stat_season tbl)
                \<and> set (map stat_season tbl) = season ` set rows
                \<and> sorted (map (\<lambda>a. first_index (map season out) (season a)) an)
                \<and> (\<forall>s. filter (\<lambda>a. season a = s) an
                        = map (annotate cfg rows)
                            (filter (\<lambda>r. season r = s \<and> is_anomalous cfg rows r) out))))"
    by (rule analyze_city_data_order[OF assms(1,2)])
qed

text \<open>
  Claim C9. A call leaves every object of the caller as it was, the argument among them,
  whether it returns or raises. The three frames returned are at addresses that were
  free before the call, so none of them is an object of the caller, and the three are
  different objects.
\<close>

theorem analyze_city_data_leaves_argument:
  assumes "arg < length st" and "st ! arg = Obs rows"
  shows "(case analyze_city_data cfg arg st of
            (res, st') \<Rightarrow>
               length st \<le> length st'
             \<and> (\<forall>a<length st. st' ! a = st ! a)
             \<and> st' ! arg = Obs rows
             \<and> (case res of
                   Inl err \<Rightarrow> True
                 | Inr (city_df, season_stats, city_anomalies) \<Rightarrow>
                     length st \<le> city_df \<and> length st \<le> season_stats \<and> length st \<le> city_anomalies
                   \<and> city_df < length st' \<and> season_stats < length st' \<and> city_anomalies < length st'
                   \<and> city_df \<noteq> season_stats \<and> season_stats \<noteq> city_anomalies
                   \<and> city_df \<noteq> city_anomalies))"
proof -
  obtain res st' where R: "analyze_city_data cfg arg st = (res, st')" by (cases "analyze_city_data cfg arg st")
  have st': "st' = snd (analyze_city_data cfg arg st)" unfolding R by simp
  have K1: "length st \<le> length st'" unfolding st' by (rule analyze_city_data_kept(1)[OF assms])
  have K2: "\<forall>a<length st. st' ! a = st ! a"
    unfolding st' using analyze_city_data_kept(2)[OF assms] by blast
  have K3: "st' ! arg = Obs rows" using K2 assms by simp
  have K4: "(case res of
                   Inl err \<Rightarrow> True
                 | Inr (city_df, season_stats, city_anomalies) \<Rightarrow>
                     length st \<le> city_df \<and> length st \<le> season_stats \<and> length st \<le> city_anomalies
                   \<and> city_df < length st' \<and> season_stats < length st' \<and> city_anomalies < length st'
                   \<and> city_df \<noteq> season_stats \<and> season_stats \<noteq> city_anomalies
                   \<and> city_df \<noteq> city_anomalies)"
  proof (cases "1 \<le> ROLLING_WINDOW cfg")
    case True
    show ?thesis
    proof (rule analyze_city_data_result[OF assms True])
      let ?enr = "enriched_rows cfg rows"
      fix e s n st2
      assume R2: "analyze_city_data cfg arg st = (Inr (e, s, n), st2)"
        and B: "length st \<le> e" "e < s" "s < n" "n < length st2"
        and "take (length st) st2 = st"
        and "st2 ! e = Obs ?enr"
        and "st2 ! s = Stats (season_stats_rows cfg ?enr)"
        and "st2 ! n = (if anomaly_rows cfg ?enr = [] then Empty else Obs (anomaly_rows cfg ?enr))"
      from R R2 have "res = Inr (e, s, n)" "st' = st2" by simp_all
      with B show ?thesis by simp
    qed
  next
    case False
    then have "res = Inl ValueError" using R by (simp add: analyze_city_data_error)
    then show ?thesis by simp
  qed
  show ?thesis unfolding R using K1 K2 K3 K4 by simp
qed

lemma sqrt_16: "sqrt 16 = 4"
  using real_sqrt_abs[of 4] by simp

lemma example_winter_temps:
  "season_temps example_rows ''winter'' = [Num 0, Num 0, Num 0, Num 8]"
  and example_summer_temps: "season_temps example_rows ''summer'' = [Num 20]"
  by (simp_all add: season_temps_def example_rows_def example_row_def)

lemma example_bounds:
  "season_lower example_config example_rows ''winter'' = Num (- 2)"
  "season_upper example_config example_rows ''winter'' = Num 6"
  "season_lower example_config example_rows ''summer'' = NaN"
  "season_upper example_config example_rows ''summer'' = NaN"
  by (simp_all add: season_lower_def season_upper_def example_winter_temps example_summer_temps
      series_mean_def series_std_def example_config_def sqrt_16)

lemma example_row_anomalous:
  "is_anomalous example_config example_rows (example_row t x s)
     = (flt (Num x) (season_lower example_config example_rows s)
        \<or> fgt (Num x) (season_upper example_config example_rows s))"
  by (simp add: is_anomalous_def example_row_def)

lemma example_anomalous_list:
  "filter (is_anomalous example_config example_rows)
     [example_row 2 0 ''winter'', example_row 1 0 ''winter'', example_row 3 0 ''winter'',
      example_row 4 8 ''winter'', example_row 5 20 ''summer'']
   = [example_row 4 8 ''winter'']"
  by (simp add: example_row_anomalous example_bounds)

lemmas example_anomalous = example_anomalous_list[folded example_rows_def]

lemma example_sorted:
  "sort_key timestamp example_rows =
     [example_row 1 0 ''winter'', example_row 2 0 ''winter'', example_row 3 0 ''winter'',
      example_row 4 8 ''winter'', example_row 5 20 ''summer'']"
  by (simp add: example_rows_def example_row_def)

lemma example_hyps:
  "0 < length [Obs example_rows]" "[Obs example_rows] ! 0 = Obs example_rows"
  "1 \<le> ROLLING_WINDOW example_config"
  by (simp_all add: example_config_def)

theorem anomalies_are_out_of_bounds_observations_witness:
  "0 < length [Obs example_rows] \<and> [Obs example_rows] ! 0 = Obs example_rows
   \<and> 1 \<le> ROLLING_WINDOW example_config
   \<and> filter (is_anomalous example_config example_rows) example_rows = [example_row 4 8 ''winter'']
   \<and> (\<exists>city_df season_stats city_anomalies st'.
     analyze_city_data example_config 0 [Obs example_rows]
       = (Inr (city_df, season_stats, city_anomalies), st')
   \<and> mset (map observation_of (obs_rows (st' ! city_anomalies)))
        = mset (map observation_of (filter (is_anomalous example_config example_rows) example_rows))
   \<and> (\<forall>a\<in>set (obs_rows (st' ! city_anomalies)).
        (\<exists>r\<in>set (obs_rows (st' ! city_df)).
            is_anomalous example_config example_rows r \<and> a = annotate example_config example_rows r)
      \<and> (flt (temperature a) (season_lower example_config example_rows (season a))
          \<or> fgt (temperature a) (season_upper example_config example_rows (season a)))
      \<and> get_col ''lower_bound'' a = Some (Val (season_lower example_config example_rows (season a)))
      \<and> get_col ''upper_bound'' a = Some (Val (season_upper example_config example_rows (season a)))
      \<and> get_col ''deviation'' a
          = Some (Val (fsub (temperature a) (series_mean (season_temps example_rows (season a))))))
   \<and> (\<forall>r\<in>set (obs_rows (st' ! city_df)).
        is_anomalous example_config example_rows r \<longrightarrow>
        annotate example_config example_rows r \<in> set (obs_rows (st' ! city_anomalies)))
   \<and> set (map observation_of (obs_rows (st' ! city_anomalies)))
        \<subseteq> set (map observation_of example_rows)
   \<and> length (obs_rows (st' ! city_anomalies)) \<le> length example_rows)"
  by (intro conjI example_hyps example_anomalous
        anomalies_are_out_of_bounds_observations[OF example_hyps])

subsection \<open>The example, evaluated\<close>

lemma example_enriched:
  "enriched_rows example_config example_rows =
     [(example_row 1 0 ''winter'')\<lparr>extras := [(''rolling_mean_2'', Val (Num 0))]\<rparr>,
      (example_row 2 0 ''winter'')\<lparr>extras := [(''rolling_mean_2'', Val (Num 0))]\<rparr>,
      (example_row 3 0 ''winter'')\<lparr>extras := [(''rolling_mean_2'', Val (Num 0))]\<rparr>,
      (example_row 4 8 ''winter'')\<lparr>extras := [(''rolling_mean_2'', Val (Num 4))]\<rparr>,
      (example_row 5 20 ''summer'')\<lparr>extras := [(''rolling_mean_2'', Val (Num 14))]\<rparr>]"
  unfolding enriched_rows_def example_sorted Let_def
  by (simp add: upt_rec window_mean_def series_mean_def rolling_col_def example_config_def
      str_def example_row_def set_col_def)

lemma example_stats:
  "season_stats_rows example_config example_rows =
     [\<lparr>stat_season = ''summer'', stat_mean = Num 20, stat_std = NaN, stat_min = Num 20,
       stat_max = Num 20, stat_count = 1, stat_extras = [(''season_ru'', Txt ''summer'')]\<rparr>,
      \<lparr>stat_season = ''winter'', stat_mean = Num 2, stat_std = Num 4, stat_min = Num 0,
       stat_max = Num 8, stat_count = 4, stat_extras = [(''season_ru'', Txt ''zima'')]\<rparr>]"
proof -
  have k: "sort (remdups (map season example_rows)) = [''summer'', ''winter'']"
    by (simp add: example_rows_def example_row_def)
  have l: "lower ''summer'' = ''summer''" "lower ''winter'' = ''winter''"
    by (simp_all add: lower_def lower_char_def)
  show ?thesis
    unfolding season_stats_rows_def k
    by (simp add: example_winter_temps example_summer_temps series_mean_def series_std_def
        series_min_def series_max_def series_count_def sqrt_16 translate_season_def
        example_config_def l)
qed

lemma example_anomalies:
  "anomaly_rows example_config (enriched_rows example_config example_rows) =
     [(example_row 4 8 ''winter'')
        \<lparr>extras := [(''rolling_mean_2'', Val (Num 4)), (''lower_bound'', Val (Num (- 2))),
                    (''upper_bound'', Val (Num 6)), (''deviation'', Val (Num 6))]\<rparr>]"
proof -
  have u: "unique (map season (enriched_rows example_config example_rows)) = [''winter'', ''summer'']"
    unfolding example_enriched by (simp add: unique_def example_row_def)
  have a: "is_anomalous example_config example_rows
             \<lparr>city = c, timestamp = t, temperature = Num x, season = s, extras = e\<rparr>
     = (flt (Num x) (season_lower example_config example_rows s)
        \<or> fgt (Num x) (season_upper example_config example_rows s))" for c t x s e
    by (simp add: is_anomalous_def)
  have m: "series_mean (season_temps example_rows ''winter'') = Num 2"
    by (simp add: example_winter_temps series_mean_def)
  have s: "season ((example_row t x s)\<lparr>extras := e\<rparr>) = s" for t x s e
    by (simp add: example_row_def)
  have f: "filter (\<lambda>r. season r = ''winter'') (enriched_rows example_config example_rows)
        = take 4 (enriched_rows example_config example_rows)"
       "filter (\<lambda>r. season r = ''summer'') (enriched_rows example_config example_rows)
        = drop 4 (enriched_rows example_config example_rows)"
    unfolding example_enriched by (simp_all add: s)
  show ?thesis
    unfolding anomaly_rows_def u season_anomalies_def is_anomalous_enriched_fun annotate_enriched_fun f
    unfolding example_enriched
    by (simp add: a example_bounds annotate_def set_col_def example_row_def m)
qed

lemma example_call:
  "(case analyze_city_data example_config 0 [Obs example_rows] of
      (Inl x, st') \<Rightarrow> False
    | (Inr (e, s, n), st') \<Rightarrow>
        st' ! e = Obs (enriched_rows example_config example_rows)
      \<and> st' ! s = Stats (season_stats_rows example_config example_rows)
      \<and> st' ! n = Obs (anomaly_rows example_config (enriched_rows example_config example_rows)))"
  using analyze_city_data_contents[OF example_hyps(1,2), of example_config] example_hyps(3)
  by (auto split: prod.splits sum.splits simp: example_anomalies)

theorem rolling_mean_column_witness:
  "0 < length [Obs example_rows] \<and> [Obs example_rows] ! 0 = Obs example_rows
   \<and> 1 \<le> ROLLING_WINDOW example_config
   \<and> (\<exists>city_df season_stats city_anomalies st' out.
     analyze_city_data example_config 0 [Obs example_rows] = (Inr (city_df, season_stats, city_anomalies), st')
   \<and> st' ! city_df = Obs out
   \<and> length out = length example_rows
   \<and> mset (map observation_of out) = mset (map observation_of example_rows)
   \<and> sorted (map timestamp out)
   \<and> (\<forall>i<length out.
         get_col (''rolling_mean_'' @ str (ROLLING_WINDOW example_config)) (out ! i)
           = Some (Val (series_mean (drop (Suc i - nat (ROLLING_WINDOW example_config))
                                       (take (Suc i) (map temperature out)))))
       \<and> (temperature (out ! i) \<noteq> NaN \<longrightarrow>
            get_col (''rolling_mean_'' @ str (ROLLING_WINDOW example_config)) (out ! i) \<noteq> Some (Val NaN)))
   \<and> (\<forall>ts. map temperature out = map Num ts \<longrightarrow>
         (\<forall>i<length out.
            get_col (''rolling_mean_'' @ str (ROLLING_WINDOW example_config)) (out ! i)
              = Some (Val (Num (sum_list (drop (Suc i - nat (ROLLING_WINDOW example_config)) (take (Suc i) ts))
                                / real (min (Suc i) (nat (ROLLING_WINDOW example_config))))))))
   \<and> (example_rows \<noteq> [] \<longrightarrow>
         get_col (''rolling_mean_'' @ str (ROLLING_WINDOW example_config)) (hd out) = Some (Val (temperature (hd out)))))"
  by (intro conjI example_hyps rolling_mean_column[OF example_hyps])

theorem season_stats_table_witness:
  "0 < length [Obs example_rows] \<and> [Obs example_rows] ! 0 = Obs example_rows
   \<and> 1 \<le> ROLLING_WINDOW example_config
   \<and> (\<exists>city_df season_stats city_anomalies st' tbl.
     analyze_city_data example_config 0 [Obs example_rows] = (Inr (city_df, season_stats, city_anomalies), st')
   \<and> st' ! season_stats = Stats tbl
   \<and> distinct (map stat_season tbl) \<and> sorted (map stat_season tbl)
   \<and> set (map stat_season tbl) = season ` set example_rows
   \<and> (\<forall>r\<in>set tbl.
         stat_mean r = series_mean (season_temps example_rows (stat_season r))
       \<and> stat_std r = series_std (season_temps example_rows (stat_season r))
       \<and> stat_min r = series_min (season_temps example_rows (stat_season r))
       \<and> stat_max r = series_max (season_temps example_rows (stat_season r))
       \<and> stat_count r = series_count (season_temps example_rows (stat_season r))
       \<and> map_of (stat_extras r) ''season_ru'' = Some (Txt (translate_season example_config (stat_season r))))
   \<and> (\<forall>r\<in>set tbl. \<forall>ts. season_temps example_rows (stat_season r) = map Num ts \<longrightarrow>
         ts \<noteq> []
       \<and> stat_count r = length (filter (\<lambda>x. season x = stat_season r) example_rows)
       \<and> stat_count r = length ts
       \<and> stat_mean r = Num (sum_list ts / real (length ts))
       \<and> stat_std r =
           (if length ts = 1 then NaN
            else Num (sqrt (sum_list (map (\<lambda>x. (x - sum_list ts / real (length ts))\<^sup>2) ts)
                            / real (length ts - 1))))
       \<and> stat_min r = Num (Min (set ts)) \<and> stat_max r = Num (Max (set ts)))
   \<and> (\<forall>s. season_temps example_rows s = [Num (- 5), Num (- 7), Num (- 6)] \<longrightarrow>
         (\<exists>r\<in>set tbl. stat_season r = s \<and> stat_mean r = Num (- 6) \<and> stat_std r = Num 1
             \<and> stat_count r = 3 \<and> stat_min r = Num (- 7) \<and> stat_max r = Num (- 5))))"
  by (intro conjI example_hyps season_stats_table[OF example_hyps])

theorem analyze_city_data_leaves_argument_witness:
  "0 < length [Obs example_rows] \<and> [Obs example_rows] ! 0 = Obs example_rows
   \<and> ((case analyze_city_data example_config 0 [Obs example_rows] of
            (res, st') \<Rightarrow>
               length [Obs example_rows] \<le> length st'
             \<and> (\<forall>a<length [Obs example_rows]. st' ! a = [Obs example_rows] ! a)
             \<and> st' ! 0 = Obs example_rows
             \<and> (case res of
                   Inl err \<Rightarrow> True
                 | Inr (city_df, season_stats, city_anomalies) \<Rightarrow>
                     length [Obs example_rows] \<le> city_df \<and> length [Obs example_rows] \<le> season_stats \<and> length [Obs example_rows] \<le> city_anomalies
                   \<and> city_df < length st' \<and> season_stats < length st' \<and> city_anomalies < length st'
                   \<and> city_df \<noteq> season_stats \<and> season_stats \<noteq> city_anomalies
                   \<and> city_df \<noteq> city_anomalies)))"
  by (intro conjI example_hyps(1,2) analyze_city_data_leaves_argument[OF example_hyps(1,2)])

lemma example_hyps3:
  "1 < length [Empty, Obs (rev example_rows)]"
  "[Empty, Obs (rev example_rows)] ! 1 = Obs (rev example_rows)"
  "mset (rev example_rows) = mset example_rows"
  "rev example_rows = example_rows \<or> distinct (map timestamp example_rows)"
  by (simp_all add: example_rows_def example_row_def)

theorem analyze_city_data_deterministic_witness:
  "0 < length [Obs example_rows] \<and> [Obs example_rows] ! 0 = Obs example_rows
   \<and> 1 < length [Empty, Obs (rev example_rows)]
   \<and> [Empty, Obs (rev example_rows)] ! 1 = Obs (rev example_rows)
   \<and> mset (rev example_rows) = mset example_rows
   \<and> (rev example_rows = example_rows \<or> distinct (map timestamp example_rows))
   \<and> same_results (analyze_city_data example_config 0 [Obs example_rows])
         (analyze_city_data example_config 1 [Empty, Obs (rev example_rows)])
   \<and> same_results (analyze_city_data example_config 0 [Obs example_rows])
         (analyze_city_data example_config 0
            (snd (analyze_city_data example_config 0 [Obs example_rows])))
   \<and> (case analyze_city_data example_config 0 [Obs example_rows] of
            (Inl err, st') \<Rightarrow> ROLLING_WINDOW example_config < 1
          | (Inr (city_df, season_stats, city_anomalies), st') \<Rightarrow>
              (let out = obs_rows (st' ! city_df);
                   tbl = stats_rows (st' ! season_stats);
                   an = obs_rows (st' ! city_anomalies)
               in mset (map observation_of out) = mset (map observation_of example_rows)
                \<and> sorted (map timestamp out)
                \<and> sorted (map stat_season tbl) \<and> distinct (map stat_season tbl)
                \<and> set (map stat_season tbl) = season ` set example_rows
                \<and> sorted (map (\<lambda>a. first_index (map season out) (season a)) an)
                \<and> (\<forall>s. filter (\<lambda>a. season a = s) an
                        = map (annotate example_config example_rows)
                            (filter (\<lambda>r. season r = s \<and> is_anomalous example_config example_rows r) out))))"
  by (intro conjI example_hyps(1,2) example_hyps3
        analyze_city_data_deterministic[OF example_hyps(1,2) example_hyps3, THEN conjunct1]
        analyze_city_data_deterministic[OF example_hyps(1,2) example_hyps3, THEN conjunct2, THEN conjunct1]
        analyze_city_data_deterministic[OF example_hyps(1,2) example_hyps3, THEN conjunct2, THEN conjunct2])

theorem degenerate_statistics_witness:
  "0 < length [Obs example_rows] \<and> [Obs example_rows] ! 0 = Obs example_rows
   \<and> 1 \<le> ROLLING_WINDOW example_config
   \<and> length (filter (\<lambda>r. season r = ''summer'') example_rows) = 1
   \<and> (\<exists>city_df season_stats city_anomalies st'.
          analyze_city_data example_config 0 [Obs example_rows]
            = (Inr (city_df, season_stats, city_anomalies), st')
        \<and> \<not> (\<exists>a\<in>set (obs_rows (st' ! city_anomalies)). season a = ''summer''))
   \<and> filter (\<lambda>r. stat_season r = ''summer'') (season_stats_rows example_config example_rows)
        = [hd (season_stats_rows example_config example_rows)]
   \<and> stat_std (hd (season_stats_rows example_config example_rows)) = NaN
   \<and> deviation_in_std (check_temperature_normality example_config (Num 25) ''summer''
         (season_stats_rows example_config example_rows)) = Some (Num 0)
   \<and> is_normal (check_temperature_normality example_config (Num 25) ''summer''
         (season_stats_rows example_config example_rows)) = Some False"
proof -
  let ?tbl = "season_stats_rows example_config example_rows"
  note T = degenerate_statistics[of 0 "[Obs example_rows]" example_rows example_config
              "''summer''" ?tbl "hd ?tbl" "[]" "Num 25"]
  have one: "length (filter (\<lambda>r. season r = ''summer'') example_rows) = 1"
    by (simp add: example_rows_def example_row_def)
  have f: "filter (\<lambda>r. stat_season r = ''summer'') ?tbl = [hd ?tbl]"
    and n: "stat_std (hd ?tbl) = NaN"
    unfolding example_stats by simp_all
  from T example_hyps obtain city_df season_stats city_anomalies st' where
    R: "analyze_city_data example_config 0 [Obs example_rows]
            = (Inr (city_df, season_stats, city_anomalies), st')"
    and A: "\<forall>s. length (filter (\<lambda>r. season r = s) example_rows) = 1
                \<or> series_std (season_temps example_rows s) = NaN \<longrightarrow>
              (\<forall>a\<in>set (obs_rows (st' ! city_anomalies)). season a \<noteq> s)"
    by blast
  from A one have "\<not> (\<exists>a\<in>set (obs_rows (st' ! city_anomalies)). season a = ''summer'')"
    by blast
  with R have E: "\<exists>city_df season_stats city_anomalies st'.
          analyze_city_data example_config 0 [Obs example_rows]
            = (Inr (city_df, season_stats, city_anomalies), st')
        \<and> \<not> (\<exists>a\<in>set (obs_rows (st' ! city_anomalies)). season a = ''summer'')"
    by blast
  from T f n have C: "deviation_in_std (check_temperature_normality example_config (Num 25) ''summer'' ?tbl)
                        = Some (Num 0)"
      "is_normal (check_temperature_normality example_config (Num 25) ''summer'' ?tbl) = Some False"
    by (simp_all add: Let_def)
  show ?thesis
    by (intro conjI example_hyps one E f n C)
qed

subsection \<open>The classifier\<close>

text \<open>
  Claim C2, as the code has it. With no row for the season the classifier returns the
  dictionary with \<open>no_data = True\<close> and every other entry \<open>None\<close>; it is a value of the
  function, which raises nowhere. Otherwise, with \<open>r\<close> the first row of the season, it
  returns \<open>no_data = False\<close>, the mean and std of \<open>r\<close>, the bounds mean - k*std and
  mean + k*std, \<open>is_normal\<close> true iff lower_bound \<le> current_temp \<le> upper_bound (both
  inclusive), deviation = current_temp - mean, and deviation_in_std = deviation / std
  when std > 0 and 0 otherwise: when std is 0, and also when std is NaN. On numbers the
  float operations are those of the reals. With std = 0 and current_temp equal to the
  mean, deviation_in_std is 0 and \<open>is_normal\<close> is true.
\<close>

theorem check_temperature_normality_result:
  "(filter (\<lambda>r. stat_season r = s) tbl = [] \<longrightarrow>
      check_temperature_normality cfg cur s tbl =
        \<lparr>is_normal = None, mean_temp = None, std_temp = None, lower_bound = None,
         upper_bound = None, deviation = None, deviation_in_std = None, no_data = True\<rparr>)
   \<and> (filter (\<lambda>r. stat_season r = s) tbl = r # rest \<longrightarrow>
      (let res = check_temperature_normality cfg cur s tbl;
           k = ANOMALY_THRESHOLD cfg;
           lo = fsub (stat_mean r) (fmul (Num k) (stat_std r));
           hi = fadd (stat_mean r) (fmul (Num k) (stat_std r));
           dev = fsub cur (stat_mean r)
       in no_data res = False
        \<and> mean_temp res = Some (stat_mean r) \<and> std_temp res = Some (stat_std r)
        \<and> lower_bound res = Some lo \<and> upper_bound res = Some hi
        \<and> is_normal res = Some (fle lo cur \<and> fle cur hi)
        \<and> deviation res = Some dev
        \<and> deviation_in_std res =
            Some (if fgt (stat_std r) (Num 0) then fdiv dev (stat_std r) else Num 0)
        \<and> (\<forall>m sd c. stat_mean r = Num m \<and> stat_std r = Num sd \<and> cur = Num c \<longrightarrow>
              lower_bound res = Some (Num (m - k * sd))
            \<and> upper_bound res = Some (Num (m + k * sd))
            \<and> is_normal res = Some (m - k * sd \<le> c \<and> c \<le> m + k * sd)
            \<and> deviation res = Some (Num (c - m))
            \<and> deviation_in_std res = Some (Num (if sd > 0 then (c - m) / sd else 0)))
        \<and> (stat_std r = Num 0 \<or> stat_std r = NaN \<longrightarrow> deviation_in_std res = Some (Num 0))
        \<and> (stat_std r = Num 0 \<and> cur = stat_mean r \<and> cur \<noteq> NaN \<longrightarrow>
              is_normal res = Some True)))"
  by (cases "stat_mean r"; cases "stat_std r"; cases cur)
     (auto simp add: check_temperature_normality_def Let_def)

theorem check_temperature_normality_result_witness:
  "(let tbl = [\<lparr>stat_season = ''winter'', stat_mean = Num 5, stat_std = Num 0, stat_min = Num 5,
                 stat_max = Num 5, stat_count = 2, stat_extras = []\<rparr>];
        cfg = \<lparr>SEASON_MAPPING = Map.empty, ANOMALY_THRESHOLD = 2, ROLLING_WINDOW = 30\<rparr>
    in filter (\<lambda>r. stat_season r = ''summer'') tbl = []
     \<and> no_data (check_temperature_normality cfg (Num 5) ''summer'' tbl) = True
     \<and> is_normal (check_temperature_normality cfg (Num 5) ''summer'' tbl) = None
     \<and> filter (\<lambda>r. stat_season r = ''winter'') tbl = hd tbl # []
     \<and> no_data (check_temperature_normality cfg (Num 5) ''winter'' tbl) = False
     \<and> is_normal (check_temperature_normality cfg (Num 5) ''winter'' tbl) = Some True
     \<and> deviation_in_std (check_temperature_normality cfg (Num 5) ''winter'' tbl) = Some (Num 0))"
  using check_temperature_normality_result
    [of "''summer''"
        "[\<lparr>stat_season = ''winter'', stat_mean = Num 5, stat_std = Num 0, stat_min = Num 5,
                 stat_max = Num 5, stat_count = 2, stat_extras = []\<rparr>]"
        "\<lparr>SEASON_MAPPING = Map.empty, ANOMALY_THRESHOLD = 2, ROLLING_WINDOW = 30\<rparr>"
        "Num 5"]
    check_temperature_normality_result
    [of "''winter''"
        "[\<lparr>stat_season = ''winter'', stat_mean = Num 5, stat_std = Num 0, stat_min = Num 5,
                 stat_max = Num 5, stat_count = 2, stat_extras = []\<rparr>]"
        "\<lparr>SEASON_MAPPING = Map.empty, ANOMALY_THRESHOLD = 2, ROLLING_WINDOW = 30\<rparr>"
        "Num 5"
        "\<lparr>stat_season = ''winter'', stat_mean = Num 5, stat_std = Num 0, stat_min = Num 5,
                 stat_max = Num 5, stat_count = 2, stat_extras = []\<rparr>" "[]"]
  by (simp add: Let_def)

text \<open>
  The claim as written gives deviation_in_std = deviation / std whenever std is not 0.
  A season with a single observation has std = NaN; there deviation / std is NaN, and the
  classifier returns 0 (season mean 20, current temperature 25).
\<close>

theorem check_temperature_normality_nan_std_counterexample:
  "stat_std undefined_std_row \<noteq> Num 0
   \<and> deviation_in_std
         (check_temperature_normality example_config (Num 25) ''summer'' [undefined_std_row])
       = Some (Num 0)
   \<and> deviation_in_std
         (check_temperature_normality example_config (Num 25) ''summer'' [undefined_std_row])
       \<noteq> Some (fdiv (fsub (Num 25) (stat_mean undefined_std_row)) (stat_std undefined_std_row))"
  by (simp add: check_temperature_normality_def Let_def undefined_std_row_def)

subsection \<open>The loader\<close>

lemma records_assign_map:
  "records (assign c (map g (records df)) df) = map (\<lambda>r. r(c := g r)) (records df)"
  by (simp add: assign_def map_zip_self)

lemma columns_assign: "set (columns (assign c vals df)) = insert c (set (columns df))"
  by (auto simp: assign_def)

lemma columns_assign_present: "c \<in> set (columns df) \<Longrightarrow> columns (assign c vals df) = columns df"
  by (simp add: assign_def)

lemma to_datetime_ok:
  "list_all (parses parse) col \<Longrightarrow>
   to_datetime parse col
     = Inr (map (\<lambda>x. case parse x of Inr t \<Rightarrow> Time t | Inl msg \<Rightarrow> x) col)"
  by (induction col) (auto simp: parses_def split: sum.splits)

lemma to_datetime_fail:
  "\<not> list_all (parses parse) col \<Longrightarrow>
   \<exists>msg. to_datetime parse col = Inl (ParseError msg) \<and> (\<exists>x\<in>set col. parse x = Inl msg)"
  by (induction col) (auto simp: parses_def split: sum.splits)

lemma to_datetime_cases:
  "to_datetime parse col = Inl e \<Longrightarrow> \<not> list_all (parses parse) col"
  using to_datetime_ok[of parse col] by auto

lemma sortable_times: "list_all (\<lambda>e. kind e = 3) col \<Longrightarrow> sortable col"
  unfolding sortable_def list_all_iff by auto

lemma loadable_D:
  assumes "loadable parse df"
  shows "list_all (\<lambda>c. c \<in> set (columns df)) required_columns"
    "list_all (\<lambda>r. parses parse (r ''timestamp'')) (records df)"
    "list_all (\<lambda>r. is_text (r ''season'')) (records df)"
    "sortable (map (\<lambda>r. r ''city'') (records df))"
  using assms by (simp_all add: loadable_def)

lemma load_body_validated:
  assumes "list_all (\<lambda>c. c \<in> set (columns df)) required_columns"
    and "list_all (\<lambda>r. parses parse (r ''timestamp'')) (records df)"
    and "list_all (\<lambda>r. is_text (r ''season'')) (records df)"
  shows "load_body cfg parse (Readable df) =
           (case sort_values [''city'', ''timestamp'']
                   \<lparr>columns = loaded_columns df, records = map (prepare cfg parse) (records df)\<rparr> of
              Inl e \<Rightarrow> Inl e
            | Inr df4 \<Rightarrow> Inr (Some df4, None))"
proof -
  let ?g = "\<lambda>r. case parse (r ''timestamp'') of Inr t \<Rightarrow> Time t | Inl msg \<Rightarrow> r ''timestamp''"
  let ?f1 = "\<lambda>r. r(''timestamp'' := ?g r)"
  let ?df1 = "\<lparr>columns = columns df, records = map ?f1 (records df)\<rparr>"
  let ?f2 = "\<lambda>r. r(''season'' := Text (strip (lower (text_of (r ''season'')))))"
  let ?df2 = "\<lparr>columns = columns df, records = map ?f2 (map ?f1 (records df))\<rparr>"
  let ?f3 = "\<lambda>r. r(''season_ru'' := Text (translate_season cfg (text_of (r ''season''))))"
  let ?df3 = "\<lparr>columns = loaded_columns df, records = map ?f3 (map ?f2 (map ?f1 (records df)))\<rparr>"
  have D: "''city'' \<in> set (columns df)" "''timestamp'' \<in> set (columns df)"
    "''temperature'' \<in> set (columns df)" "''season'' \<in> set (columns df)"
    "list_all (parses parse) (map (\<lambda>r. r ''timestamp'') (records df))"
    "list_all is_text (map (\<lambda>r. r ''season'') (records df))"
    using assms by (simp_all add: required_columns_def list_all_iff)
  have a1: "getitem df ''timestamp'' = Inr (map (\<lambda>r. r ''timestamp'') (records df))"
    using D(2) by (simp add: getitem_def)
  have a2: "to_datetime parse (map (\<lambda>r. r ''timestamp'') (records df)) = Inr (map ?g (records df))"
    using to_datetime_ok[OF D(5)] by (simp add: comp_def)
  have a3: "assign ''timestamp'' (map ?g (records df)) df = ?df1"
    using D(2) by (simp add: assign_def map_zip_self)
  have a4: "filter (\<lambda>col. col \<notin> set (columns ?df1)) required_columns = []"
    using D(1-4) by (simp add: required_columns_def)
  have b1: "getitem ?df1 ''season'' = Inr (map (\<lambda>r. r ''season'') (records df))"
    using D(4) by (simp add: getitem_def comp_def)
  have b2: "str_lower_strip (map (\<lambda>r. r ''season'') (records df))
              = Inr (map (\<lambda>r. Text (strip (lower (text_of (r ''season''))))) (map ?f1 (records df)))"
    using D(6) by (auto simp add: str_lower_strip_def comp_def list_all_iff list_ex_iff)
  have b3: "assign ''season'' (map (\<lambda>r. Text (strip (lower (text_of (r ''season''))))) (map ?f1 (records df))) ?df1
              = ?df2"
    using D(4) records_assign_map[of "''season''" "\<lambda>r. Text (strip (lower (text_of (r ''season''))))" ?df1]
    by (simp add: assign_def)
  have c1: "getitem ?df2 ''season'' = Inr (map (\<lambda>r. r ''season'') (map ?f2 (map ?f1 (records df))))"
    using D(4) by (simp add: getitem_def)
  have c2: "apply_translate_season cfg (map (\<lambda>r. r ''season'') (map ?f2 (map ?f1 (records df))))
              = Inr (map (\<lambda>r. Text (translate_season cfg (text_of (r ''season'')))) (map ?f2 (map ?f1 (records df))))"
    by (simp add: apply_translate_season_def comp_def list_all_iff)
  have c3: "assign ''season_ru'' (map (\<lambda>r. Text (translate_season cfg (text_of (r ''season'')))) (map ?f2 (map ?f1 (records df)))) ?df2
              = ?df3"
    using records_assign_map[of "''season_ru''" "\<lambda>r. Text (translate_season cfg (text_of (r ''season'')))" ?df2]
    by (simp add: assign_def loaded_columns_def)
  have prep: "map ?f3 (map ?f2 (map ?f1 (records df))) = map (prepare cfg parse) (records df)"
    by (simp add: prepare_def Let_def fun_upd_twist)
  show ?thesis
    unfolding load_body_def normalize_and_sort_def
    by (simp only: uploaded_file.case a1 a2 a3 a4 b1 b2 b3 c1 c2 c3 sum.case Let_def if_False
          simp_thms prep)
qed

lemma prepared_city:
  "map (\<lambda>r. r ''city'') (map (prepare cfg parse) rs) = map (\<lambda>r. r ''city'') rs"
  by (simp add: prepare_def Let_def)

lemma prepared_times:
  "list_all (\<lambda>r. parses parse (r ''timestamp'')) rs \<Longrightarrow>
   list_all (\<lambda>e. kind e = 3) (map (\<lambda>r. r ''timestamp'') (map (prepare cfg parse) rs))"
  by (auto simp: list_all_iff prepare_def Let_def parses_def split: sum.splits)

lemma sort_values_prepared:
  assumes "list_all (\<lambda>c. c \<in> set (columns df)) required_columns"
    and "list_all (\<lambda>r. parses parse (r ''timestamp'')) (records df)"
  shows "sort_values [''city'', ''timestamp'']
           \<lparr>columns = loaded_columns df, records = map (prepare cfg parse) (records df)\<rparr>
         = (if sortable (map (\<lambda>r. r ''city'') (records df))
            then Inr \<lparr>columns = loaded_columns df,
                      records = sort_key (row_key [''city'', ''timestamp''])
                                  (map (prepare cfg parse) (records df))\<rparr>
            else Inl TypeError)"
proof -
  have D: "''city'' \<in> set (columns df)" "''timestamp'' \<in> set (columns df)"
    using assms(1) by (simp_all add: required_columns_def)
  show ?thesis
    using D sortable_times[OF prepared_times[OF assms(2), of cfg]]
    by (simp add: sort_values_def loaded_columns_def prepared_city[unfolded map_map])
qed

lemma load_body_loadable:
  assumes "loadable parse df"
  shows "load_body cfg parse (Readable df) =
           Inr (Some \<lparr>columns = loaded_columns df,
                      records = sort_key (row_key [''city'', ''timestamp''])
                                  (map (prepare cfg parse) (records df))\<rparr>, None)"
  using loadable_D[OF assms]
  by (simp add: load_body_validated sort_values_prepared)

lemma load_body_not_sortable:
  assumes "list_all (\<lambda>c. c \<in> set (columns df)) required_columns"
    and "list_all (\<lambda>r. parses parse (r ''timestamp'')) (records df)"
    and "list_all (\<lambda>r. is_text (r ''season'')) (records df)"
    and "\<not> sortable (map (\<lambda>r. r ''city'') (records df))"
  shows "load_body cfg parse (Readable df) = Inl TypeError"
  using assms by (simp add: load_body_validated sort_values_prepared)

lemma load_body_unreadable: "load_body cfg parse (Unreadable msg) = Inl (ReadError msg)"
  by (simp add: load_body_def)

lemma load_body_no_timestamp:
  "''timestamp'' \<notin> set (columns df) \<Longrightarrow>
   load_body cfg parse (Readable df) = Inl (KeyError ''timestamp'')"
  by (simp add: load_body_def getitem_def)

lemma load_body_unparseable:
  assumes "''timestamp'' \<in> set (columns df)"
    and "\<not> list_all (\<lambda>r. parses parse (r ''timestamp'')) (records df)"
  shows "\<exists>msg. load_body cfg parse (Readable df) = Inl (ParseError msg)
           \<and> (\<exists>r\<in>set (records df). parse (r ''timestamp'') = Inl msg)"
proof -
  have "\<not> list_all (parses parse) (map (\<lambda>r. r ''timestamp'') (records df))"
    using assms(2) by (simp add: list_all_iff)
  from to_datetime_fail[OF this] obtain msg where
    m: "to_datetime parse (map (\<lambda>r. r ''timestamp'') (records df)) = Inl (ParseError msg)"
    and x: "\<exists>x\<in>set (map (\<lambda>r. r ''timestamp'') (records df)). parse x = Inl msg"
    by blast
  have "load_body cfg parse (Readable df) = Inl (ParseError msg)"
    using assms(1) m by (simp add: load_body_def getitem_def)
  moreover have "\<exists>r\<in>set (records df). parse (r ''timestamp'') = Inl msg"
    using x by auto
  ultimately show ?thesis by blast
qed

lemma load_body_missing:
  assumes "''timestamp'' \<in> set (columns df)"
    and "list_all (\<lambda>r. parses parse (r ''timestamp'')) (records df)"
    and "filter (\<lambda>c. c \<notin> set (columns df)) required_columns \<noteq> []"
  shows "load_body cfg parse (Readable df) =
           Inr (None, Some (MissingColumns (filter (\<lambda>c. c \<notin> set (columns df)) required_columns)))"
proof -
  have p: "list_all (parses parse) (map (\<lambda>r. r ''timestamp'') (records df))"
    using assms(2) by (simp add: list_all_iff)
  show ?thesis
    using assms(1,3) to_datetime_ok[OF p]
    by (simp add: load_body_def getitem_def Let_def columns_assign_present)
qed

lemma load_body_season_not_text:
  assumes "list_all (\<lambda>c. c \<in> set (columns df)) required_columns"
    and "list_all (\<lambda>r. parses parse (r ''timestamp'')) (records df)"
    and "\<not> list_all (\<lambda>r. is_text (r ''season'')) (records df)"
  shows "load_body cfg parse (Readable df) = Inl AttributeError"
proof -
  let ?g = "\<lambda>r. case parse (r ''timestamp'') of Inr t \<Rightarrow> Time t | Inl msg \<Rightarrow> r ''timestamp''"
  let ?f1 = "\<lambda>r. r(''timestamp'' := ?g r)"
  let ?df1 = "\<lparr>columns = columns df, records = map ?f1 (records df)\<rparr>"
  let ?h = "\<lambda>e. if is_text e then Text (strip (lower (text_of e))) else Number NaN"
  let ?col = "map (\<lambda>r. r ''season'') (records df)"
  let ?f2 = "\<lambda>r. r(''season'' := ?h (r ''season''))"
  let ?df2 = "\<lparr>columns = columns df, records = map ?f2 (map ?f1 (records df))\<rparr>"
  have D: "''timestamp'' \<in> set (columns df)" "''season'' \<in> set (columns df)"
    "list_all (parses parse) (map (\<lambda>r. r ''timestamp'') (records df))"
    using assms(1,2) by (simp_all add: required_columns_def list_all_iff)
  have n: "\<not> list_all is_text ?col" using assms(3) by (simp add: list_all_iff)
  have a1: "getitem df ''timestamp'' = Inr (map (\<lambda>r. r ''timestamp'') (records df))"
    using D(1) by (simp add: getitem_def)
  have a2: "to_datetime parse (map (\<lambda>r. r ''timestamp'') (records df)) = Inr (map ?g (records df))"
    using to_datetime_ok[OF D(3)] by (simp add: comp_def)
  have a3: "assign ''timestamp'' (map ?g (records df)) df = ?df1"
    using D(1) by (simp add: assign_def map_zip_self)
  have a4: "filter (\<lambda>col. col \<notin> set (columns ?df1)) required_columns = []"
    using assms(1) by (simp add: list_all_iff filter_empty_conv)
  have b1: "getitem ?df1 ''season'' = Inr ?col"
    using D(2) by (simp add: getitem_def comp_def)
  have body: "load_body cfg parse (Readable df) = normalize_and_sort cfg ?df1"
    unfolding load_body_def
    by (simp only: uploaded_file.case a1 a2 a3 a4 sum.case Let_def if_False simp_thms)
  show ?thesis
  proof (cases "?col \<noteq> [] \<and> \<not> list_ex is_text ?col")
    case True
    then have "str_lower_strip ?col = Inl AttributeError"
      unfolding str_lower_strip_def by simp
    then show ?thesis
      unfolding body normalize_and_sort_def by (simp only: b1 sum.case)
  next
    case False
    then have b2: "str_lower_strip ?col = Inr (map (\<lambda>r. ?h (r ''season'')) (map ?f1 (records df)))"
      unfolding str_lower_strip_def by (simp add: comp_def)
    have b3: "assign ''season'' (map (\<lambda>r. ?h (r ''season'')) (map ?f1 (records df))) ?df1 = ?df2"
      using D(2) records_assign_map[of "''season''" "\<lambda>r. ?h (r ''season'')" ?df1]
      by (simp add: assign_def)
    have c1: "getitem ?df2 ''season'' = Inr (map (\<lambda>r. r ''season'') (map ?f2 (map ?f1 (records df))))"
      using D(2) by (simp add: getitem_def)
    from n obtain r where r: "r \<in> set (records df)" "\<not> is_text (r ''season'')"
      by (auto simp: list_all_iff)
    have "(?f2 (?f1 r)) ''season'' = Number NaN" using r(2) by simp
    moreover have "?f2 (?f1 r) \<in> set (map ?f2 (map ?f1 (records df)))" using r(1) by simp
    ultimately have "\<exists>x\<in>set (map ?f2 (map ?f1 (records df))). \<not> is_text (x ''season'')"
      by (intro bexI[of _ "?f2 (?f1 r)"]) simp_all
    then have "\<not> list_all is_text (map (\<lambda>r. r ''season'') (map ?f2 (map ?f1 (records df))))"
      unfolding list_all_iff by (simp del: map_map)
    then have c2: "apply_translate_season cfg (map (\<lambda>r. r ''season'') (map ?f2 (map ?f1 (records df))))
                     = Inl AttributeError"
      unfolding apply_translate_season_def by (simp only: if_False)
    show ?thesis
      unfolding body normalize_and_sort_def
      by (simp only: b1 b2 b3 c1 c2 sum.case Let_def)
  qed
qed

lemma load_result_shape:
  "(\<exists>out. load_and_validate_data cfg parse up = (Some out, None))
   \<or> (\<exists>err. load_and_validate_data cfg parse up = (None, Some err))"
proof (cases up)
  case (Unreadable msg)
  then show ?thesis by (simp add: load_and_validate_data_def load_body_unreadable)
next
  case (Readable df)
  show ?thesis
  proof (cases "''timestamp'' \<in> set (columns df)")
    case False
    then show ?thesis
      unfolding Readable by (simp add: load_and_validate_data_def load_body_no_timestamp)
  next
    case ts: True
    show ?thesis
    proof (cases "list_all (\<lambda>r. parses parse (r ''timestamp'')) (records df)")
      case False
      from load_body_unparseable[OF ts False, of cfg] show ?thesis
        unfolding Readable by (auto simp: load_and_validate_data_def)
    next
      case p: True
      show ?thesis
      proof (cases "filter (\<lambda>c. c \<notin> set (columns df)) required_columns = []")
        case False
        from load_body_missing[OF ts p False, of cfg] show ?thesis
          unfolding Readable by (simp add: load_and_validate_data_def)
      next
        case True
        then have c: "list_all (\<lambda>c. c \<in> set (columns df)) required_columns"
          by (simp add: list_all_iff filter_empty_conv)
        show ?thesis
        proof (cases "list_all (\<lambda>r. is_text (r ''season'')) (records df)")
          case False
          from load_body_season_not_text[OF c p False, of cfg] show ?thesis
            unfolding Readable by (simp add: load_and_validate_data_def)
        next
          case s: True
          show ?thesis
          proof (cases "sortable (map (\<lambda>r. r ''city'') (records df))")
            case False
            from load_body_not_sortable[OF c p s False, of cfg] show ?thesis
              unfolding Readable by (simp add: load_and_validate_data_def)
          next
            case True
            with c p s have "loadable parse df" by (simp add: loadable_def)
            from load_body_loadable[OF this, of cfg] show ?thesis
              unfolding Readable by (simp add: load_and_validate_data_def)
          qed
        qed
      qed
    qed
  qed
qed

lemma load_success_iff:
  "(\<exists>out. load_and_validate_data cfg parse up = (Some out, None))
     \<longleftrightarrow> (\<exists>df. up = Readable df \<and> loadable parse df)"
proof
  assume "\<exists>df. up = Readable df \<and> loadable parse df"
  then obtain df where "up = Readable df" "loadable parse df" by blast
  then show "\<exists>out. load_and_validate_data cfg parse up = (Some out, None)"
    using load_body_loadable[of parse df cfg] by (simp add: load_and_validate_data_def)
next
  assume ok: "\<exists>out. load_and_validate_data cfg parse up = (Some out, None)"
  show "\<exists>df. up = Readable df \<and> loadable parse df"
  proof (cases up)
    case (Unreadable msg)
    with ok show ?thesis by (simp add: load_and_validate_data_def load_body_unreadable)
  next
    case (Readable df)
    have "loadable parse df"
    proof (rule ccontr)
      assume n: "\<not> loadable parse df"
      have "\<exists>err. load_and_validate_data cfg parse (Readable df) = (None, Some err)"
      proof (cases "''timestamp'' \<in> set (columns df)")
        case False
        then show ?thesis by (simp add: load_and_validate_data_def load_body_no_timestamp)
      next
        case ts: True
        show ?thesis
        proof (cases "list_all (\<lambda>r. parses parse (r ''timestamp'')) (records df)")
          case False
          from load_body_unparseable[OF ts False, of cfg] show ?thesis
            by (auto simp: load_and_validate_data_def)
        next
          case p: True
          show ?thesis
          proof (cases "filter (\<lambda>c. c \<notin> set (columns df)) required_columns = []")
            case False
            from load_body_missing[OF ts p False, of cfg] show ?thesis
              by (simp add: load_and_validate_data_def)
          next
            case True
            then have c: "list_all (\<lambda>c. c \<in> set (columns df)) required_columns"
              by (simp add: list_all_iff filter_empty_conv)
            show ?thesis
            proof (cases "list_all (\<lambda>r. is_text (r ''season'')) (records df)")
              case False
              from load_body_season_not_text[OF c p False, of cfg] show ?thesis
                by (simp add: load_and_validate_data_def)
            next
              case s: True
              with c p n have "\<not> sortable (map (\<lambda>r. r ''city'') (records df))"
                by (simp add: loadable_def)
              from load_body_not_sortable[OF c p s this, of cfg] show ?thesis
                by (simp add: load_and_validate_data_def)
            qed
          qed
        qed
      qed
      with ok Readable show False by auto
    qed
    with Readable show ?thesis by blast
  qed
qed

text \<open>
  Claim C10. The loader returns a pair for every input, a frame without error or an
  error without frame: an exception of the body, whatever it is, is turned into the
  message of a failed load. The timestamp column is read before the columns are checked,
  so a table without the column \<^verbatim>\<open>timestamp\<close> gives the failed-load message (of the
  \<^verbatim>\<open>KeyError\<close>) and never the message for missing columns.
\<close>

theorem load_and_validate_data_total:
  "((\<exists>out. load_and_validate_data cfg parse up = (Some out, None))
     \<or> (\<exists>err. load_and_validate_data cfg parse up = (None, Some err)))
   \<and> (\<forall>e. load_body cfg parse up = Inl e \<longrightarrow>
          load_and_validate_data cfg parse up = (None, Some (LoadFailed e)))
   \<and> (\<forall>df. up = Readable df \<and> ''timestamp'' \<notin> set (columns df) \<longrightarrow>
          load_body cfg parse up = Inl (KeyError ''timestamp'')
        \<and> load_and_validate_data cfg parse up = (None, Some (LoadFailed (KeyError ''timestamp'')))
        \<and> (\<forall>missing. load_and_validate_data cfg parse up \<noteq> (None, Some (MissingColumns missing))))"
proof (intro conjI allI impI)
  show "(\<exists>out. load_and_validate_data cfg parse up = (Some out, None))
     \<or> (\<exists>err. load_and_validate_data cfg parse up = (None, Some err))"
    by (rule load_result_shape)
next
  fix e assume "load_body cfg parse up = Inl e"
  then show "load_and_validate_data cfg parse up = (None, Some (LoadFailed e))"
    by (simp add: load_and_validate_data_def)
next
  fix df assume "up = Readable df \<and> ''timestamp'' \<notin> set (columns df)"
  then have b: "load_body cfg parse up = Inl (KeyError ''timestamp'')"
    by (simp add: load_body_no_timestamp)
  show "load_body cfg parse up = Inl (KeyError ''timestamp'')" by (rule b)
  show "load_and_validate_data cfg parse up = (None, Some (LoadFailed (KeyError ''timestamp'')))"
    using b by (simp add: load_and_validate_data_def)
  fix missing
  show "load_and_validate_data cfg parse up \<noteq> (None, Some (MissingColumns missing))"
    using b by (simp add: load_and_validate_data_def)
qed

text \<open>
  Claim C3, as the code has it. The loader returns a frame without error or an error
  without frame, never both. When the timestamp column is there and every timestamp
  parses, a table that lacks some of the required columns fails with the message for
  missing columns, which names exactly these columns (\<^verbatim>\<open>temperature\<close> for a table
  that lacks only this one). When the timestamp column is there and a timestamp does not
  parse, the loader fails with the failed-load message that carries the message of the
  parser. The temperatures are not checked: the loader succeeds exactly on the tables
  that are \<open>loadable\<close>, whatever their temperature column holds.
\<close>

theorem load_and_validate_data_errors:
  "((\<exists>out. load_and_validate_data cfg parse up = (Some out, None))
     \<or> (\<exists>err. load_and_validate_data cfg parse up = (None, Some err)))
   \<and> (up = Readable df \<and> ''timestamp'' \<in> set (columns df)
        \<and> list_all (\<lambda>r. parses parse (r ''timestamp'')) (records df)
        \<and> filter (\<lambda>c. c \<notin> set (columns df)) required_columns \<noteq> [] \<longrightarrow>
       load_and_validate_data cfg parse up
         = (None, Some (MissingColumns (filter (\<lambda>c. c \<notin> set (columns df)) required_columns))))
   \<and> (up = Readable df \<and> ''timestamp'' \<in> set (columns df)
        \<and> list_all (\<lambda>r. parses parse (r ''timestamp'')) (records df)
        \<and> ''city'' \<in> set (columns df) \<and> ''season'' \<in> set (columns df)
        \<and> ''temperature'' \<notin> set (columns df) \<longrightarrow>
       load_and_validate_data cfg parse up = (None, Some (MissingColumns [''temperature''])))
   \<and> (up = Readable df \<and> ''timestamp'' \<in> set (columns df)
        \<and> \<not> list_all (\<lambda>r. parses parse (r ''timestamp'')) (records df) \<longrightarrow>
       (\<exists>msg. load_and_validate_data cfg parse up = (None, Some (LoadFailed (ParseError msg)))
            \<and> (\<exists>r\<in>set (records df). parse (r ''timestamp'') = Inl msg)))
   \<and> ((\<exists>out. load_and_validate_data cfg parse up = (Some out, None))
        \<longleftrightarrow> (\<exists>df'. up = Readable df' \<and> loadable parse df'))"
proof (intro conjI impI)
  show "(\<exists>out. load_and_validate_data cfg parse up = (Some out, None))
     \<or> (\<exists>err. load_and_validate_data cfg parse up = (None, Some err))"
    by (rule load_result_shape)
next
  assume "up = Readable df \<and> ''timestamp'' \<in> set (columns df)
        \<and> list_all (\<lambda>r. parses parse (r ''timestamp'')) (records df)
        \<and> filter (\<lambda>c. c \<notin> set (columns df)) required_columns \<noteq> []"
  then show "load_and_validate_data cfg parse up
         = (None, Some (MissingColumns (filter (\<lambda>c. c \<notin> set (columns df)) required_columns)))"
    using load_body_missing[of df parse cfg] by (simp add: load_and_validate_data_def)
next
  assume a: "up = Readable df \<and> ''timestamp'' \<in> set (columns df)
        \<and> list_all (\<lambda>r. parses parse (r ''timestamp'')) (records df)
        \<and> ''city'' \<in> set (columns df) \<and> ''season'' \<in> set (columns df)
        \<and> ''temperature'' \<notin> set (columns df)"
  then have m: "filter (\<lambda>c. c \<notin> set (columns df)) required_columns = [''temperature'']"
    by (simp add: required_columns_def)
  from a show "load_and_validate_data cfg parse up = (None, Some (MissingColumns [''temperature'']))"
    using load_body_missing[of df parse cfg] unfolding m by (simp add: load_and_validate_data_def)
next
  assume "up = Readable df \<and> ''timestamp'' \<in> set (columns df)
        \<and> \<not> list_all (\<lambda>r. parses parse (r ''timestamp'')) (records df)"
  then show "\<exists>msg. load_and_validate_data cfg parse up = (None, Some (LoadFailed (ParseError msg)))
            \<and> (\<exists>r\<in>set (records df). parse (r ''timestamp'') = Inl msg)"
    using load_body_unparseable[of df parse cfg] by (auto simp: load_and_validate_data_def)
next
  show "(\<exists>out. load_and_validate_data cfg parse up = (Some out, None))
        \<longleftrightarrow> (\<exists>df'. up = Readable df' \<and> loadable parse df')"
    by (rule load_success_iff)
qed

lemma row_key_text_time:
  fixes t t' :: "'t::linorder"
  assumes "r ''city'' = Text c" "r ''timestamp'' = Time t"
    and "r' ''city'' = Text c'" "r' ''timestamp'' = Time t'"
  shows "row_key [''city'', ''timestamp''] r \<le> row_key [''city'', ''timestamp''] r'
           \<longleftrightarrow> c < c' \<or> c = c' \<and> t \<le> t'"
  using assms by (auto simp: row_key_def)

lemma prepared_row:
  assumes "parses parse (r ''timestamp'')" and "is_text (r ''city'')"
  shows "\<exists>c t. prepare cfg parse r ''city'' = Text c \<and> prepare cfg parse r ''timestamp'' = Time t"
proof -
  from assms(2) obtain c where "r ''city'' = Text c" by (cases "r ''city''") auto
  moreover from assms(1) obtain t where "parse (r ''timestamp'') = Inr t"
    by (cases "parse (r ''timestamp'')") (auto simp: parses_def)
  ultimately show ?thesis by (simp add: prepare_def Let_def)
qed

text \<open>
  Claim C4. For a table that the loader accepts, the frame returned has as many rows as
  the table: the rows of the table, each prepared (as a multiset, so none is dropped or
  duplicated). They are sorted by the columns city and timestamp, and rows with the
  same key are in the order of the table. When the cities are texts this reads: of two
  rows, the earlier one has the smaller city, or the same city and a timestamp that is
  not later.
\<close>

theorem load_sorted_stable:
  assumes "loadable parse df"
  shows "\<exists>out. load_and_validate_data cfg parse (Readable df) = (Some out, None)
   \<and> length (records out) = length (records df)
   \<and> mset (records out) = mset (map (prepare cfg parse) (records df))
   \<and> sorted (map (row_key [''city'', ''timestamp'']) (records out))
   \<and> (\<forall>k. filter (\<lambda>r. row_key [''city'', ''timestamp''] r = k) (records out)
           = filter (\<lambda>r. row_key [''city'', ''timestamp''] r = k)
               (map (prepare cfg parse) (records df)))
   \<and> (list_all (\<lambda>r. is_text (r ''city'')) (records df) \<longrightarrow>
        (\<forall>i j. i < j \<and> j < length (records out) \<longrightarrow>
           (\<exists>c t c' t'. (records out ! i) ''city'' = Text c \<and> (records out ! i) ''timestamp'' = Time t
              \<and> (records out ! j) ''city'' = Text c' \<and> (records out ! j) ''timestamp'' = Time t'
              \<and> (c < c' \<or> c = c' \<and> t \<le> t'))))"
proof -
  let ?key = "row_key [''city'', ''timestamp'']"
  let ?prep = "map (prepare cfg parse) (records df)"
  let ?out = "\<lparr>columns = loaded_columns df, records = sort_key ?key ?prep\<rparr>"
  have R: "load_and_validate_data cfg parse (Readable df) = (Some ?out, None)"
    using load_body_loadable[OF assms, of cfg] by (simp add: load_and_validate_data_def)
  have L: "length (records ?out) = length (records df)" by simp
  have M: "mset (records ?out) = mset ?prep" by simp
  have S: "sorted (map ?key (records ?out))" by simp
  have T: "\<forall>k. filter (\<lambda>r. ?key r = k) (records ?out) = filter (\<lambda>r. ?key r = k) ?prep"
    by (simp add: sort_key_stable)
  have P: "list_all (\<lambda>r. is_text (r ''city'')) (records df) \<longrightarrow>
        (\<forall>i j. i < j \<and> j < length (records ?out) \<longrightarrow>
           (\<exists>c t c' t'. (records ?out ! i) ''city'' = Text c \<and> (records ?out ! i) ''timestamp'' = Time t
              \<and> (records ?out ! j) ''city'' = Text c' \<and> (records ?out ! j) ''timestamp'' = Time t'
              \<and> (c < c' \<or> c = c' \<and> t \<le> t')))"
  proof (intro impI allI)
    fix i j
    assume citytext: "list_all (\<lambda>r. is_text (r ''city'')) (records df)"
      and ij: "i < j \<and> j < length (records ?out)"
    let ?rs = "sort_key ?key ?prep"
    have mem: "\<exists>c t. r ''city'' = Text c \<and> r ''timestamp'' = Time t" if "r \<in> set ?rs" for r
    proof -
      from that obtain r0 where r0: "r0 \<in> set (records df)" "r = prepare cfg parse r0" by auto
      with citytext loadable_D(2)[OF assms] have "parses parse (r0 ''timestamp'')" "is_text (r0 ''city'')"
        by (simp_all add: list_all_iff)
      from prepared_row[OF this, of cfg] r0(2) show ?thesis by simp
    qed
    from ij have i: "i < length ?rs" and j: "j < length ?rs" by simp_all
    from mem[OF nth_mem[OF i]] obtain c t where ci: "(?rs ! i) ''city'' = Text c" "(?rs ! i) ''timestamp'' = Time t"
      by blast
    from mem[OF nth_mem[OF j]] obtain c' t' where cj: "(?rs ! j) ''city'' = Text c'" "(?rs ! j) ''timestamp'' = Time t'"
      by blast
    have "sorted (map ?key ?rs)" by simp
    then have "map ?key ?rs ! i \<le> map ?key ?rs ! j"
      using ij by (intro sorted_nth_mono) simp_all
    then have "?key (?rs ! i) \<le> ?key (?rs ! j)" using i j by simp
    then have "c < c' \<or> c = c' \<and> t \<le> t'"
      unfolding row_key_text_time[OF ci cj] .
    with ci cj show "\<exists>c t c' t'. (records ?out ! i) ''city'' = Text c \<and> (records ?out ! i) ''timestamp'' = Time t
              \<and> (records ?out ! j) ''city'' = Text c' \<and> (records ?out ! j) ''timestamp'' = Time t'
              \<and> (c < c' \<or> c = c' \<and> t \<le> t')"
      by simp
  qed
  show ?thesis
    by (rule exI[of _ ?out]) (intro conjI R L M S T P)
qed

lemma example_record_fields [simp]:
  "example_record c t x s ''city'' = Text c"
  "example_record c t x s ''timestamp'' = Text t"
  "example_record c t x s ''temperature'' = x"
  "example_record c t x s ''season'' = Text s"
  by (simp_all add: example_record_def)

lemma example_records_parse:
  "list_all (\<lambda>r. parses example_parse (r ''timestamp'')) example_records"
  by (simp add: example_records_def parses_def)

lemma example_table_loadable: "loadable example_parse example_table"
  using example_records_parse
  by (simp add: loadable_def example_table_def required_columns_def)
     (simp add: example_records_def sortable_def)

lemma example_table_loaded:
  "load_and_validate_data example_config example_parse (Readable example_table)
     = (Some \<lparr>columns = [''city'', ''timestamp'', ''temperature'', ''season'', ''season_ru''],
              records = map (prepare example_config example_parse)
                          [example_record ''Berlin'' ''2024-01-03'' (Number (Num 1)) ''winter'',
                           example_record ''Moscow'' ''2024-01-01'' (Text ''n/a'') ''WINTER'',
                           example_record ''Moscow'' ''2024-01-02'' (Number (Num (- 5))) '' Winter'']\<rparr>,
        None)"
proof -
  have k: "row_key [''city'', ''timestamp''] (prepare example_config example_parse (example_record c t x s))
             = [(False, c, 0, []), entry_key (case example_parse (Text t) of Inr d \<Rightarrow> Time d | Inl m \<Rightarrow> Text t)]"
    for c t x s
    by (simp add: row_key_def prepare_def Let_def)
  have c: "loaded_columns example_table = [''city'', ''timestamp'', ''temperature'', ''season'', ''season_ru'']"
    by (simp add: loaded_columns_def example_table_def)
  have r: "records example_table = example_records" by (simp add: example_table_def)
  show ?thesis
    unfolding load_and_validate_data_def load_body_loadable[OF example_table_loadable] c r
    by (simp add: example_records_def k)
qed

lemma example_prepared:
  "prepare example_config example_parse (example_record c ''2024-01-01'' x ''WINTER'') ''season'' = Text ''winter''"
  "prepare example_config example_parse (example_record c ''2024-01-01'' x ''WINTER'') ''season_ru'' = Text ''zima''"
  "prepare example_config example_parse (example_record c ''2024-01-01'' x ''WINTER'') ''timestamp'' = Time 1"
  "prepare example_config example_parse (example_record c ''2024-01-01'' x ''WINTER'') ''temperature'' = x"
  by (simp_all add: prepare_def Let_def lower_def lower_char_def strip_def is_space_def
      translate_season_def example_config_def)

theorem load_sorted_stable_witness:
  "loadable example_parse example_table
   \<and> map (\<lambda>r. r ''city'')
       (records (the (fst (load_and_validate_data example_config example_parse (Readable example_table)))))
      = [Text ''Berlin'', Text ''Moscow'', Text ''Moscow'']
   \<and> map (\<lambda>r. r ''timestamp'')
       (records (the (fst (load_and_validate_data example_config example_parse (Readable example_table)))))
      = [Time 3, Time 1, Time 2]
   \<and> (\<exists>out. load_and_validate_data example_config example_parse (Readable example_table) = (Some out, None)
   \<and> length (records out) = length (records example_table)
   \<and> mset (records out) = mset (map (prepare example_config example_parse) (records example_table))
   \<and> sorted (map (row_key [''city'', ''timestamp'']) (records out))
   \<and> (\<forall>k. filter (\<lambda>r. row_key [''city'', ''timestamp''] r = k) (records out)
           = filter (\<lambda>r. row_key [''city'', ''timestamp''] r = k)
               (map (prepare example_config example_parse) (records example_table)))
   \<and> (list_all (\<lambda>r. is_text (r ''city'')) (records example_table) \<longrightarrow>
        (\<forall>i j. i < j \<and> j < length (records out) \<longrightarrow>
           (\<exists>c t c' t'. (records out ! i) ''city'' = Text c \<and> (records out ! i) ''timestamp'' = Time t
              \<and> (records out ! j) ''city'' = Text c' \<and> (records out ! j) ''timestamp'' = Time t'
              \<and> (c < c' \<or> c = c' \<and> t \<le> t')))))"
proof -
  have c: "map (\<lambda>r. r ''city'')
       (records (the (fst (load_and_validate_data example_config example_parse (Readable example_table)))))
      = [Text ''Berlin'', Text ''Moscow'', Text ''Moscow'']"
    unfolding example_table_loaded by (simp add: prepare_def Let_def)
  have t: "map (\<lambda>r. r ''timestamp'')
       (records (the (fst (load_and_validate_data example_config example_parse (Readable example_table)))))
      = [Time 3, Time 1, Time 2]"
    unfolding example_table_loaded by (simp add: prepare_def Let_def)
  show ?thesis
    by (intro conjI example_table_loadable c t load_sorted_stable[OF example_table_loadable])
qed

text \<open>
  The claim as written has the loader fail on a temperature that is not a number. The
  third row of the example table has the temperature \<^verbatim>\<open>n/a\<close>; the table is loaded
  without error and the frame returned holds that text.
\<close>

theorem load_accepts_text_temperature_counterexample:
  "(example_records ! 2) ''temperature'' = Text ''n/a''
   \<and> snd (load_and_validate_data example_config example_parse (Readable example_table)) = None
   \<and> fst (load_and_validate_data example_config example_parse (Readable example_table)) \<noteq> None
   \<and> map (\<lambda>r. r ''temperature'')
       (records (the (fst (load_and_validate_data example_config example_parse (Readable example_table)))))
      = [Number (Num 1), Text ''n/a'', Number (Num (- 5))]"
  unfolding example_table_loaded
  by (simp add: example_records_def prepare_def Let_def)

lemma no_temperature_hyps:
  "''timestamp'' \<in> set (columns no_temperature_table)"
  "list_all (\<lambda>r. parses example_parse (r ''timestamp'')) (records no_temperature_table)"
  "''city'' \<in> set (columns no_temperature_table)"
  "''season'' \<in> set (columns no_temperature_table)"
  "''temperature'' \<notin> set (columns no_temperature_table)"
  "filter (\<lambda>c. c \<notin> set (columns no_temperature_table)) required_columns = [''temperature'']"
  using example_records_parse by (simp_all add: no_temperature_table_def required_columns_def)

lemma bad_timestamp_hyps:
  "''timestamp'' \<in> set (columns bad_timestamp_table)"
  "\<not> list_all (\<lambda>r. parses example_parse (r ''timestamp'')) (records bad_timestamp_table)"
  by (simp_all add: bad_timestamp_table_def parses_def)

lemma bad_timestamp_messages:
  "r \<in> set (records bad_timestamp_table) \<Longrightarrow> example_parse (r ''timestamp'') = Inl msg \<Longrightarrow>
   msg = ''Unknown datetime string format, unable to parse: yesterday''"
  by (auto simp: bad_timestamp_table_def example_records_def)

theorem load_and_validate_data_errors_witness:
  "''timestamp'' \<in> set (columns no_temperature_table)
   \<and> list_all (\<lambda>r. parses example_parse (r ''timestamp'')) (records no_temperature_table)
   \<and> filter (\<lambda>c. c \<notin> set (columns no_temperature_table)) required_columns = [''temperature'']
   \<and> load_and_validate_data example_config example_parse (Readable no_temperature_table)
        = (None, Some (MissingColumns [''temperature'']))
   \<and> ''timestamp'' \<in> set (columns bad_timestamp_table)
   \<and> \<not> list_all (\<lambda>r. parses example_parse (r ''timestamp'')) (records bad_timestamp_table)
   \<and> load_and_validate_data example_config example_parse (Readable bad_timestamp_table)
        = (None, Some (LoadFailed
             (ParseError ''Unknown datetime string format, unable to parse: yesterday'')))
   \<and> loadable example_parse example_table
   \<and> fst (load_and_validate_data example_config example_parse (Readable example_table)) \<noteq> None"
proof -
  note T1 = load_and_validate_data_errors[of example_config example_parse
              "Readable no_temperature_table" no_temperature_table]
  note T2 = load_and_validate_data_errors[of example_config example_parse
              "Readable bad_timestamp_table" bad_timestamp_table]
  note T3 = load_and_validate_data_errors[of example_config example_parse
              "Readable example_table" example_table]
  have a: "load_and_validate_data example_config example_parse (Readable no_temperature_table)
        = (None, Some (MissingColumns [''temperature'']))"
    using T1 no_temperature_hyps by simp
  from T2 bad_timestamp_hyps obtain msg where
    m: "load_and_validate_data example_config example_parse (Readable bad_timestamp_table)
          = (None, Some (LoadFailed (ParseError msg)))"
    and r: "\<exists>r\<in>set (records bad_timestamp_table). example_parse (r ''timestamp'') = Inl msg"
    by blast
  from r bad_timestamp_messages have "msg = ''Unknown datetime string format, unable to parse: yesterday''"
    by blast
  with m have b: "load_and_validate_data example_config example_parse (Readable bad_timestamp_table)
        = (None, Some (LoadFailed
             (ParseError ''Unknown datetime string format, unable to parse: yesterday'')))"
    by simp
  from T3 example_table_loadable
  have "\<exists>out. load_and_validate_data example_config example_parse (Readable example_table) = (Some out, None)"
    by blast
  then have c: "fst (load_and_validate_data example_config example_parse (Readable example_table)) \<noteq> None"
    by auto
  show ?thesis
    by (intro conjI no_temperature_hyps(1,2,6) bad_timestamp_hyps a b example_table_loadable c)
qed

theorem load_and_validate_data_total_witness:
  "''timestamp'' \<notin> set (columns no_timestamp_table)
   \<and> load_body example_config example_parse (Readable no_timestamp_table) = Inl (KeyError ''timestamp'')
   \<and> load_and_validate_data example_config example_parse (Readable no_timestamp_table)
        = (None, Some (LoadFailed (KeyError ''timestamp'')))
   \<and> load_and_validate_data example_config example_parse (Readable no_timestamp_table)
        \<noteq> (None, Some (MissingColumns [''timestamp'']))
   \<and> load_and_validate_data example_config example_parse (Unreadable ''No columns to parse from file'')
        = (None, Some (LoadFailed (ReadError ''No columns to parse from file'')))"
proof -
  have h: "''timestamp'' \<notin> set (columns no_timestamp_table)"
    by (simp add: no_timestamp_table_def)
  note T = load_and_validate_data_total[of example_config example_parse "Readable no_timestamp_table"]
  from T h have a: "load_body example_config example_parse (Readable no_timestamp_table) = Inl (KeyError ''timestamp'')"
    and b: "load_and_validate_data example_config example_parse (Readable no_timestamp_table)
        = (None, Some (LoadFailed (KeyError ''timestamp'')))"
    and c: "load_and_validate_data example_config example_parse (Readable no_timestamp_table)
        \<noteq> (None, Some (MissingColumns [''timestamp'']))"
    by blast+
  have u: "load_body example_config example_parse (Unreadable ''No columns to parse from file'')
             = Inl (ReadError ''No columns to parse from file'')"
    by (rule load_body_unreadable)
  from load_and_validate_data_total[of example_config example_parse
         "Unreadable ''No columns to parse from file''"] u
  have d: "load_and_validate_data example_config example_parse (Unreadable ''No columns to parse from file'')
        = (None, Some (LoadFailed (ReadError ''No columns to parse from file'')))"
    by blast
  show ?thesis by (intro conjI h a b c d)
qed

end
